theory Spec2Isabelle
  imports Main "HOL-Library.Word"
begin

section \<open>go-tavily: request construction and error classification\<close>

text \<open>
  A shallow embedding of \<^verbatim>\<open>client.go\<close>, \<^verbatim>\<open>types.go\<close> and \<^verbatim>\<open>helpers.go\<close>.
  Go's \<^verbatim>\<open>int\<close> is modelled by \<open>int\<close>: the code only compares these values
  with constants and copies them (the single addition, \<^verbatim>\<open>i+1\<close> on a slice index, cannot
  overflow), so every statement proved for all \<open>int\<close> holds for all 64-bit values.
  A \<^verbatim>\<open>string\<close> is a byte list, a slice a list (a nil slice and an empty one both have
  length 0, which is all the code and \<^verbatim>\<open>omitempty\<close> look at), a \<^verbatim>\<open>*bool\<close> is a
  \<open>bool option\<close>, and a \<^verbatim>\<open>float64\<close> is its 64-bit pattern, never computed with.
\<close>

subsection \<open>Errors (types.go 3-31, and the error values of the standard library)\<close>

record APIError =
  StatusCode :: int
  Message :: string

text \<open>
  A Go \<^verbatim>\<open>error\<close> is one of: a \<^verbatim>\<open>*APIError\<close>; an error value made by the standard
  library (encoding/json, net/http, io, context), of which only its text matters here; or the
  value \<^verbatim>\<open>fmt.Errorf("...%w", err)\<close> builds, which holds its formatted text and the
  error it wraps.
\<close>

datatype error =
    APIErr APIError
  | LibError string
  | Wrapped string error

text \<open>\<^verbatim>\<open>func (e *APIError) Error() string\<close> and the \<^verbatim>\<open>Error()\<close> of the other two kinds.\<close>

fun Error :: "error \<Rightarrow> string" where
  "Error (APIErr e) = Message e"
| "Error (LibError m) = m"
| "Error (Wrapped m e) = m"

text \<open>\<^verbatim>\<open>fmt.Errorf(prefix + "%w", err)\<close>: the text is the prefix followed by \<^verbatim>\<open>err.Error()\<close>.\<close>

definition Errorf_w :: "string \<Rightarrow> error \<Rightarrow> error" where
  "Errorf_w prefix err = Wrapped (prefix @ Error err) err"

text \<open>\<^verbatim>\<open>errors.Unwrap\<close>, and the chain \<^verbatim>\<open>errors.Is\<close> and \<^verbatim>\<open>errors.As\<close> walk.\<close>

fun Unwrap :: "error \<Rightarrow> error option" where
  "Unwrap (Wrapped m e) = Some e"
| "Unwrap e = None"

fun chain :: "error \<Rightarrow> error list" where
  "chain (Wrapped m e) = Wrapped m e # chain e"
| "chain e = [e]"

text \<open>\<^verbatim>\<open>errors.As(err, &apiErr)\<close> with \<^verbatim>\<open>var apiErr *APIError\<close>: the first
  \<^verbatim>\<open>*APIError\<close> of the chain, if there is one.\<close>

fun errors_As :: "error \<Rightarrow> APIError option" where
  "errors_As (APIErr e) = Some e"
| "errors_As (LibError m) = None"
| "errors_As (Wrapped m e) = errors_As e"

text \<open>\<^verbatim>\<open>errors.Is(err, target)\<close> for comparable error values.\<close>

definition errors_Is :: "error \<Rightarrow> error \<Rightarrow> bool" where
  "errors_Is err target = (target \<in> set (chain err))"

definition IsRateLimit :: "APIError \<Rightarrow> bool" where
  "IsRateLimit e = (StatusCode e = 429)"

definition IsForbidden :: "APIError \<Rightarrow> bool" where
  "IsForbidden e = (StatusCode e = 403 \<or> StatusCode e = 432 \<or> StatusCode e = 433)"

definition IsUnauthorized :: "APIError \<Rightarrow> bool" where
  "IsUnauthorized e = (StatusCode e = 401)"

definition IsBadRequest :: "APIError \<Rightarrow> bool" where
  "IsBadRequest e = (StatusCode e = 400)"

subsection \<open>Options and request payloads (types.go 100-222)\<close>

text \<open>
  A field of type \<^verbatim>\<open>any\<close> holds nil, a bool, a string, some other value that
  encoding/json can encode (given by the document it encodes to), or a value encoding/json
  rejects (a channel, a function, a complex number).
\<close>

datatype json =
    JNull
  | JBool bool
  | JNumber int
  | JString string
  | JArray "json list"
  | JObject "(string \<times> json) list"

datatype any_value =
    AnyNil
  | AnyBool bool
  | AnyString string
  | AnyEncodable json
  | AnyUnsupported

type_synonym float64 = "64 word"
type_synonym CrawlCategory = string

record SearchOptions =
  so_SearchDepth :: string
  so_Topic :: string
  so_TimeRange :: string
  so_Days :: int
  so_MaxResults :: int
  so_IncludeDomains :: "string list"
  so_ExcludeDomains :: "string list"
  so_IncludeAnswer :: any_value
  so_IncludeRawContent :: any_value
  so_IncludeImages :: "bool option"
  so_IncludeImageDescriptions :: "bool option"
  so_MaxTokens :: int
  so_ChunksPerSource :: int
  so_Country :: string
  so_Timeout :: int

record ExtractOptions =
  eo_IncludeImages :: "bool option"
  eo_ExtractDepth :: string
  eo_Format :: string
  eo_Timeout :: int

record CrawlOptions =
  co_MaxDepth :: int
  co_MaxBreadth :: int
  co_Limit :: int
  co_Instructions :: string
  co_ExtractDepth :: string
  co_SelectPaths :: "string list"
  co_SelectDomains :: "string list"
  co_ExcludePaths :: "string list"
  co_ExcludeDomains :: "string list"
  co_AllowExternal :: "bool option"
  co_IncludeImages :: "bool option"
  co_Categories :: "CrawlCategory list"
  co_Format :: string
  co_Timeout :: int

record MapOptions =
  mo_MaxDepth :: int
  mo_MaxBreadth :: int
  mo_Limit :: int
  mo_Instructions :: string
  mo_SelectPaths :: "string list"
  mo_SelectDomains :: "string list"
  mo_ExcludePaths :: "string list"
  mo_ExcludeDomains :: "string list"
  mo_AllowExternal :: "bool option"
  mo_Categories :: "CrawlCategory list"
  mo_Timeout :: int

record SearchRequest =
  sq_Query :: string
  sq_SearchDepth :: string
  sq_Topic :: string
  sq_TimeRange :: string
  sq_Days :: int
  sq_MaxResults :: int
  sq_IncludeDomains :: "string list"
  sq_ExcludeDomains :: "string list"
  sq_IncludeAnswer :: any_value
  sq_IncludeRawContent :: any_value
  sq_IncludeImages :: "bool option"
  sq_IncludeImageDescriptions :: "bool option"
  sq_MaxTokens :: int
  sq_ChunksPerSource :: int
  sq_Country :: string
  sq_Timeout :: int

record ExtractRequest =
  eq_URLs :: "string list"
  eq_IncludeImages :: "bool option"
  eq_ExtractDepth :: string
  eq_Format :: string
  eq_Timeout :: int

record CrawlRequest =
  cq_URL :: string
  cq_MaxDepth :: int
  cq_MaxBreadth :: int
  cq_Limit :: int
  cq_Instructions :: string
  cq_ExtractDepth :: string
  cq_SelectPaths :: "string list"
  cq_SelectDomains :: "string list"
  cq_ExcludePaths :: "string list"
  cq_ExcludeDomains :: "string list"
  cq_AllowExternal :: "bool option"
  cq_IncludeImages :: "bool option"
  cq_Categories :: "CrawlCategory list"
  cq_Format :: string
  cq_Timeout :: int

record MapRequest =
  mq_URL :: string
  mq_MaxDepth :: int
  mq_MaxBreadth :: int
  mq_Limit :: int
  mq_Instructions :: string
  mq_SelectPaths :: "string list"
  mq_SelectDomains :: "string list"
  mq_ExcludePaths :: "string list"
  mq_ExcludeDomains :: "string list"
  mq_AllowExternal :: "bool option"
  mq_Categories :: "CrawlCategory list"
  mq_Timeout :: int

text \<open>The zero values \<^verbatim>\<open>&SearchOptions{}\<close>, \<^verbatim>\<open>&ExtractOptions{}\<close>, \<^verbatim>\<open>&CrawlOptions{}\<close>
  and \<^verbatim>\<open>&MapOptions{}\<close> that stand in for a nil options pointer.\<close>

definition SearchOptions_zero :: SearchOptions where
  "SearchOptions_zero =
     \<lparr>so_SearchDepth = [], so_Topic = [], so_TimeRange = [], so_Days = 0, so_MaxResults = 0,
      so_IncludeDomains = [], so_ExcludeDomains = [], so_IncludeAnswer = AnyNil,
      so_IncludeRawContent = AnyNil, so_IncludeImages = None,
      so_IncludeImageDescriptions = None, so_MaxTokens = 0, so_ChunksPerSource = 0,
      so_Country = [], so_Timeout = 0\<rparr>"

definition ExtractOptions_zero :: ExtractOptions where
  "ExtractOptions_zero =
     \<lparr>eo_IncludeImages = None, eo_ExtractDepth = [], eo_Format = [], eo_Timeout = 0\<rparr>"

definition CrawlOptions_zero :: CrawlOptions where
  "CrawlOptions_zero =
     \<lparr>co_MaxDepth = 0, co_MaxBreadth = 0, co_Limit = 0, co_Instructions = [],
      co_ExtractDepth = [], co_SelectPaths = [], co_SelectDomains = [], co_ExcludePaths = [],
      co_ExcludeDomains = [], co_AllowExternal = None, co_IncludeImages = None,
      co_Categories = [], co_Format = [], co_Timeout = 0\<rparr>"

definition MapOptions_zero :: MapOptions where
  "MapOptions_zero =
     \<lparr>mo_MaxDepth = 0, mo_MaxBreadth = 0, mo_Limit = 0, mo_Instructions = [],
      mo_SelectPaths = [], mo_SelectDomains = [], mo_ExcludePaths = [],
      mo_ExcludeDomains = [], mo_AllowExternal = None, mo_Categories = [], mo_Timeout = 0\<rparr>"

subsection \<open>Response payloads (types.go 224-288)\<close>

record SearchImage =
  si_URL :: string
  si_Description :: string

record SearchResult =
  sr_Title :: string
  sr_URL :: string
  sr_Content :: string
  sr_RawContent :: string
  sr_Score :: float64
  sr_PublishedDate :: string

record SearchResponse =
  sp_Query :: string
  sp_Answer :: string
  sp_ResponseTime :: float64
  sp_Images :: "SearchImage list"
  sp_Results :: "SearchResult list"

record ExtractResult =
  er_URL :: string
  er_RawContent :: string
  er_Images :: "string list"

record ExtractFailedResult =
  ef_URL :: string
  ef_Error :: string

record ExtractResponse =
  ep_ResponseTime :: float64
  ep_Results :: "ExtractResult list"
  ep_FailedResults :: "ExtractFailedResult list"

record CrawlResult =
  cr_URL :: string
  cr_RawContent :: string
  cr_Images :: "string list"

record CrawlResponse =
  cp_ResponseTime :: float64
  cp_BaseURL :: string
  cp_Results :: "CrawlResult list"

record MapResponse =
  mp_ResponseTime :: float64
  mp_BaseURL :: string
  mp_Results :: "string list"

text \<open>\<^verbatim>\<open>var resp SearchResponse\<close> and its three siblings: the zero values.\<close>

definition SearchResponse_zero :: SearchResponse where
  "SearchResponse_zero =
     \<lparr>sp_Query = [], sp_Answer = [], sp_ResponseTime = 0, sp_Images = [], sp_Results = []\<rparr>"

definition ExtractResponse_zero :: ExtractResponse where
  "ExtractResponse_zero = \<lparr>ep_ResponseTime = 0, ep_Results = [], ep_FailedResults = []\<rparr>"

definition CrawlResponse_zero :: CrawlResponse where
  "CrawlResponse_zero = \<lparr>cp_ResponseTime = 0, cp_BaseURL = [], cp_Results = []\<rparr>"

definition MapResponse_zero :: MapResponse where
  "MapResponse_zero = \<lparr>mp_ResponseTime = 0, mp_BaseURL = [], mp_Results = []\<rparr>"

subsection \<open>encoding/json's Marshal on the four request structs\<close>

text \<open>
  The struct tags of types.go decide the key of every field and whether it carries
  \<^verbatim>\<open>omitempty\<close>. With \<^verbatim>\<open>omitempty\<close>, encoding/json leaves a field out when it is
  empty: a string or slice of length 0, the integer 0, a nil pointer, a nil interface.
  A pointer to \<^verbatim>\<open>false\<close> and an interface holding \<^verbatim>\<open>false\<close> or \<^verbatim>\<open>""\<close> are not
  nil, so they are encoded. A document is kept as its tree, an object as the list of its
  members in the order of the struct's fields.
\<close>

definition omitempty_string :: "string \<Rightarrow> string \<Rightarrow> (string \<times> json) list" where
  "omitempty_string key v = (if v = [] then [] else [(key, JString v)])"

definition omitempty_int :: "string \<Rightarrow> int \<Rightarrow> (string \<times> json) list" where
  "omitempty_int key v = (if v = 0 then [] else [(key, JNumber v)])"

definition omitempty_strings :: "string \<Rightarrow> string list \<Rightarrow> (string \<times> json) list" where
  "omitempty_strings key vs = (if vs = [] then [] else [(key, JArray (map JString vs))])"

definition omitempty_boolptr :: "string \<Rightarrow> bool option \<Rightarrow> (string \<times> json) list" where
  "omitempty_boolptr key p = (case p of None \<Rightarrow> [] | Some b \<Rightarrow> [(key, JBool b)])"

definition omitempty_any :: "string \<Rightarrow> any_value \<Rightarrow> error + (string \<times> json) list" where
  "omitempty_any key v =
     (case v of
        AnyNil \<Rightarrow> Inr []
      | AnyBool b \<Rightarrow> Inr [(key, JBool b)]
      | AnyString s \<Rightarrow> Inr [(key, JString s)]
      | AnyEncodable j \<Rightarrow> Inr [(key, j)]
      | AnyUnsupported \<Rightarrow> Inl (LibError ''json: unsupported type''))"

definition marshal_SearchRequest :: "SearchRequest \<Rightarrow> error + json" where
  "marshal_SearchRequest r =
     (case omitempty_any ''include_answer'' (sq_IncludeAnswer r) of
        Inl err \<Rightarrow> Inl err
      | Inr answer \<Rightarrow>
          (case omitempty_any ''include_raw_content'' (sq_IncludeRawContent r) of
             Inl err \<Rightarrow> Inl err
           | Inr raw \<Rightarrow>
               Inr (JObject
                 ([(''query'', JString (sq_Query r))]
                  @ omitempty_string ''search_depth'' (sq_SearchDepth r)
                  @ omitempty_string ''topic'' (sq_Topic r)
                  @ omitempty_string ''time_range'' (sq_TimeRange r)
                  @ omitempty_int ''days'' (sq_Days r)
                  @ omitempty_int ''max_results'' (sq_MaxResults r)
                  @ omitempty_strings ''include_domains'' (sq_IncludeDomains r)
                  @ omitempty_strings ''exclude_domains'' (sq_ExcludeDomains r)
                  @ answer
                  @ raw
                  @ omitempty_boolptr ''include_images'' (sq_IncludeImages r)
                  @ omitempty_boolptr ''include_image_descriptions''
                      (sq_IncludeImageDescriptions r)
                  @ omitempty_int ''max_tokens'' (sq_MaxTokens r)
                  @ omitempty_int ''chunks_per_source'' (sq_ChunksPerSource r)
                  @ omitempty_string ''country'' (sq_Country r)
                  @ omitempty_int ''timeout'' (sq_Timeout r)))))"

text \<open>The \<^verbatim>\<open>urls\<close> field has no \<^verbatim>\<open>omitempty\<close>; Extract never builds this struct from
  a slice of length 0, so the encoding of a nil slice (null) does not arise.\<close>

definition marshal_ExtractRequest :: "ExtractRequest \<Rightarrow> error + json" where
  "marshal_ExtractRequest r =
     Inr (JObject
       ([(''urls'', JArray (map JString (eq_URLs r)))]
        @ omitempty_boolptr ''include_images'' (eq_IncludeImages r)
        @ omitempty_string ''extract_depth'' (eq_ExtractDepth r)
        @ omitempty_string ''format'' (eq_Format r)
        @ omitempty_int ''timeout'' (eq_Timeout r)))"

definition marshal_CrawlRequest :: "CrawlRequest \<Rightarrow> error + json" where
  "marshal_CrawlRequest r =
     Inr (JObject
       ([(''url'', JString (cq_URL r))]
        @ omitempty_int ''max_depth'' (cq_MaxDepth r)
        @ omitempty_int ''max_breadth'' (cq_MaxBreadth r)
        @ omitempty_int ''limit'' (cq_Limit r)
        @ omitempty_string ''instructions'' (cq_Instructions r)
        @ omitempty_string ''extract_depth'' (cq_ExtractDepth r)
        @ omitempty_strings ''select_paths'' (cq_SelectPaths r)
        @ omitempty_strings ''select_domains'' (cq_SelectDomains r)
        @ omitempty_strings ''exclude_paths'' (cq_ExcludePaths r)
        @ omitempty_strings ''exclude_domains'' (cq_ExcludeDomains r)
        @ omitempty_boolptr ''allow_external'' (cq_AllowExternal r)
        @ omitempty_boolptr ''include_images'' (cq_IncludeImages r)
        @ omitempty_strings ''categories'' (cq_Categories r)
        @ omitempty_string ''format'' (cq_Format r)
        @ omitempty_int ''timeout'' (cq_Timeout r)))"

definition marshal_MapRequest :: "MapRequest \<Rightarrow> error + json" where
  "marshal_MapRequest r =
     Inr (JObject
       ([(''url'', JString (mq_URL r))]
        @ omitempty_int ''max_depth'' (mq_MaxDepth r)
        @ omitempty_int ''max_breadth'' (mq_MaxBreadth r)
        @ omitempty_int ''limit'' (mq_Limit r)
        @ omitempty_string ''instructions'' (mq_Instructions r)
        @ omitempty_strings ''select_paths'' (mq_SelectPaths r)
        @ omitempty_strings ''select_domains'' (mq_SelectDomains r)
        @ omitempty_strings ''exclude_paths'' (mq_ExcludePaths r)
        @ omitempty_strings ''exclude_domains'' (mq_ExcludeDomains r)
        @ omitempty_boolptr ''allow_external'' (mq_AllowExternal r)
        @ omitempty_strings ''categories'' (mq_Categories r)
        @ omitempty_int ''timeout'' (mq_Timeout r)))"

text \<open>The \<^verbatim>\<open>requestBody any\<close> of doRequest holds a pointer to one of the four request
  structs, or nil.\<close>

datatype payload =
    PSearch SearchRequest
  | PExtract ExtractRequest
  | PCrawl CrawlRequest
  | PMap MapRequest

fun Marshal :: "payload \<Rightarrow> error + json" where
  "Marshal (PSearch r) = marshal_SearchRequest r"
| "Marshal (PExtract r) = marshal_ExtractRequest r"
| "Marshal (PCrawl r) = marshal_CrawlRequest r"
| "Marshal (PMap r) = marshal_MapRequest r"

text \<open>Reading a member of an object: the value of the first member with that key.\<close>

fun member :: "json \<Rightarrow> string \<Rightarrow> json option" where
  "member (JObject ms) key = map_of ms key"
| "member j key = None"

subsection \<open>The client and its collaborators (client.go 31-92)\<close>

text \<open>
  A \<^verbatim>\<open>time.Duration\<close> counts nanoseconds. A \<^verbatim>\<open>context.Context\<close> is only handed on to
  net/http, so it is kept as the state the caller passed it in.
\<close>

type_synonym Duration = int

definition Second :: Duration where
  "Second = 1000000000"

datatype Context = NilContext | Background | Canceled | DeadlineExceeded

record request =
  rq_ctx :: Context
  rq_method :: string
  rq_url :: string
  rq_header :: "string \<rightharpoonup> string"
  rq_body :: "json option"

text \<open>An \<^verbatim>\<open>*http.Response\<close>: its status code, and what \<^verbatim>\<open>io.ReadAll(resp.Body)\<close>
  returns on it.\<close>

record response =
  rs_StatusCode :: int
  rs_Body :: "error + string"

text \<open>An \<^verbatim>\<open>*http.Client\<close>: its timeout and its transport, where a nil transport stands
  for \<^verbatim>\<open>http.DefaultTransport\<close>.\<close>

record http_client =
  hc_Timeout :: Duration
  hc_Transport :: "(request \<Rightarrow> error + response) option"

record Options =
  opt_BaseURL :: string
  opt_HTTPClient :: "http_client option"
  opt_Timeout :: Duration

record Client =
  baseURL :: string
  apiKey :: string
  httpClient :: http_client
  headers :: "string \<rightharpoonup> string"

text \<open>
  What the code takes from outside the repository, as parameters: the process
  environment, the error (if any) \<^verbatim>\<open>http.NewRequestWithContext\<close> returns for a context,
  method and URL, the network behind \<^verbatim>\<open>http.DefaultTransport\<close>, and
  \<^verbatim>\<open>json.Unmarshal\<close> on each target type. For the anonymous error struct of parseAPIError
  it gives the returned error and the content of \<^verbatim>\<open>errorResp.Detail.Error\<close> after the
  call; for a response struct it maps the bytes and the struct's content before the call
  to an error or the content after it.
\<close>

record platform =
  Getenv :: "string \<Rightarrow> string"
  NewRequest_error :: "Context \<Rightarrow> string \<Rightarrow> string \<Rightarrow> error option"
  DefaultTransport :: "request \<Rightarrow> error + response"
  Unmarshal_errorResp :: "string \<Rightarrow> error option \<times> string"
  Unmarshal_SearchResponse :: "string \<Rightarrow> SearchResponse \<Rightarrow> error + SearchResponse"
  Unmarshal_ExtractResponse :: "string \<Rightarrow> ExtractResponse \<Rightarrow> error + ExtractResponse"
  Unmarshal_CrawlResponse :: "string \<Rightarrow> CrawlResponse \<Rightarrow> error + CrawlResponse"
  Unmarshal_MapResponse :: "string \<Rightarrow> MapResponse \<Rightarrow> error + MapResponse"

definition DefaultBaseURL :: string where
  "DefaultBaseURL = ''https://api.tavily.com''"

definition DefaultTimeout :: Duration where
  "DefaultTimeout = 60 * Second"

definition DefaultMaxResults :: int where
  "DefaultMaxResults = 5"

definition DefaultSearchDepth :: string where
  "DefaultSearchDepth = ''basic''"

definition DefaultTopic :: string where
  "DefaultTopic = ''general''"

definition DefaultFormat :: string where
  "DefaultFormat = ''text''"

definition ClientSource :: string where
  "ClientSource = ''go-tavily''"

definition SearchDepthAdvanced :: string where
  "SearchDepthAdvanced = ''advanced''"

definition TopicNews :: string where
  "TopicNews = ''news''"

definition FormatText :: string where
  "FormatText = ''text''"

definition FormatMarkdown :: string where
  "FormatMarkdown = ''markdown''"

definition CategoryDocumentation :: CrawlCategory where
  "CategoryDocumentation = ''Documentation''"

definition CategoryDeveloper :: CrawlCategory where
  "CategoryDeveloper = ''Developer''"

text \<open>\<^verbatim>\<open>strings.HasSuffix\<close> and \<^verbatim>\<open>strings.TrimSuffix\<close>.\<close>

definition HasSuffix :: "string \<Rightarrow> string \<Rightarrow> bool" where
  "HasSuffix s suffix =
     (length suffix \<le> length s \<and> drop (length s - length suffix) s = suffix)"

definition TrimSuffix :: "string \<Rightarrow> string \<Rightarrow> string" where
  "TrimSuffix s suffix =
     (if HasSuffix s suffix then take (length s - length suffix) s else s)"

definition Options_zero :: Options where
  "Options_zero = \<lparr>opt_BaseURL = [], opt_HTTPClient = None, opt_Timeout = 0\<rparr>"

definition New :: "platform \<Rightarrow> string \<Rightarrow> Options option \<Rightarrow> Client" where
  "New p apiKey0 opts0 =
     (let apiKey = (if apiKey0 = [] then Getenv p ''TAVILY_API_KEY'' else apiKey0);
          opts = (case opts0 of None \<Rightarrow> Options_zero | Some v \<Rightarrow> v);
          baseURL = (if opt_BaseURL opts = [] then DefaultBaseURL else opt_BaseURL opts);
          timeout = (if opt_Timeout opts = 0 then DefaultTimeout else opt_Timeout opts);
          httpClient =
            (case opt_HTTPClient opts of
               None \<Rightarrow> \<lparr>hc_Timeout = timeout, hc_Transport = None\<rparr>
             | Some hc \<Rightarrow> hc)
      in \<lparr>baseURL = TrimSuffix baseURL ''/'',
          apiKey = apiKey,
          httpClient = httpClient,
          headers = [''Content-Type'' \<mapsto> ''application/json'',
                     ''Authorization'' \<mapsto> ''Bearer '' @ apiKey,
                     ''X-Client-Source'' \<mapsto> ClientSource]\<rparr>)"

subsection \<open>The request executor (client.go 94-160)\<close>

text \<open>\<^verbatim>\<open>http.NewRequestWithContext\<close>: an error, or a request with no header yet.\<close>

definition NewRequestWithContext ::
  "platform \<Rightarrow> Context \<Rightarrow> string \<Rightarrow> string \<Rightarrow> json option \<Rightarrow> error + request" where
  "NewRequestWithContext p ctx method url body =
     (case NewRequest_error p ctx method url of
        Some err \<Rightarrow> Inl err
      | None \<Rightarrow>
          Inr \<lparr>rq_ctx = ctx, rq_method = method, rq_url = url, rq_header = Map.empty,
               rq_body = body\<rparr>)"

text \<open>\<^verbatim>\<open>c.httpClient.Do(req)\<close>.\<close>

definition Do :: "platform \<Rightarrow> http_client \<Rightarrow> request \<Rightarrow> error + response" where
  "Do p hc req =
     (case hc_Transport hc of None \<Rightarrow> DefaultTransport p req | Some rt \<Rightarrow> rt req)"

definition parseAPIError :: "platform \<Rightarrow> int \<Rightarrow> string \<Rightarrow> error" where
  "parseAPIError p statusCode respData =
     (let (err, detail_error) = Unmarshal_errorResp p respData;
          message =
            (if err = None \<and> detail_error \<noteq> [] then detail_error else ''unknown error'')
      in APIErr \<lparr>StatusCode = statusCode, Message = message\<rparr>)"

text \<open>
  doRequest threads the list of the requests handed to \<^verbatim>\<open>httpClient.Do\<close> so far: a call
  that leaves the list as it was made no network call. \<open>unmarshal\<close> is \<^verbatim>\<open>json.Unmarshal\<close>
  at the type of \<open>responseBody\<close>; \<open>responseBody\<close> is the content of the variable the
  pointer refers to, or None for nil. On success the result is the content after the call.
  The three header keys New sets are already in canonical form, so \<^verbatim>\<open>Header.Set\<close> stores
  them as they are.
\<close>

definition doRequest ::
  "platform \<Rightarrow> (string \<Rightarrow> 'r \<Rightarrow> error + 'r) \<Rightarrow> Client \<Rightarrow> Context \<Rightarrow> string
     \<Rightarrow> payload option \<Rightarrow> 'r option \<Rightarrow> request list \<Rightarrow> (error + 'r option) \<times> request list" where
  "doRequest p unmarshal c ctx endpoint requestBody responseBody sent =
     (if apiKey c = [] then
        (Inl (APIErr \<lparr>StatusCode = 401,
           Message = ''missing API key - provide via parameter or TAVILY_API_KEY environment variable''\<rparr>),
         sent)
      else
        (case (case requestBody of
                 None \<Rightarrow> Inr None
               | Some rb \<Rightarrow>
                   (case Marshal rb of Inl err \<Rightarrow> Inl err | Inr jsonData \<Rightarrow> Inr (Some jsonData))) of
           Inl err \<Rightarrow> (Inl (Errorf_w ''failed to marshal request: '' err), sent)
         | Inr body \<Rightarrow>
             (case NewRequestWithContext p ctx ''POST'' (baseURL c @ endpoint) body of
                Inl err \<Rightarrow> (Inl (Errorf_w ''failed to create request: '' err), sent)
              | Inr req0 \<Rightarrow>
                  (let req = req0\<lparr>rq_header := rq_header req0 ++ headers c\<rparr> in
                   (case Do p (httpClient c) req of
                      Inl err \<Rightarrow> (Inl (Errorf_w ''request failed: '' err), sent @ [req])
                    | Inr resp \<Rightarrow>
                        (case rs_Body resp of
                           Inl err \<Rightarrow>
                             (Inl (Errorf_w ''failed to read response: '' err), sent @ [req])
                         | Inr respData \<Rightarrow>
                             (if rs_StatusCode resp \<noteq> 200 then
                                (Inl (parseAPIError p (rs_StatusCode resp) respData),
                                 sent @ [req])
                              else
                                (case responseBody of
                                   None \<Rightarrow> (Inr None, sent @ [req])
                                 | Some rb \<Rightarrow>
                                     (case unmarshal respData rb of
                                        Inl err \<Rightarrow>
                                          (Inl (Errorf_w ''failed to unmarshal response: '' err),
                                           sent @ [req])
                                      | Inr v \<Rightarrow> (Inr (Some v), sent @ [req]))))))))))"

subsection \<open>The four operations (client.go 162-311)\<close>

definition defaultString :: "string \<Rightarrow> string \<Rightarrow> string" where
  "defaultString v defaultValue = (if v = [] then defaultValue else v)"

definition defaultInt :: "int \<Rightarrow> int \<Rightarrow> int" where
  "defaultInt v defaultValue = (if v = 0 then defaultValue else v)"

text \<open>The struct literal \<^verbatim>\<open>&SearchRequest{...}\<close> of Search (client.go 168-185), after
  the nil options pointer was replaced.\<close>

definition SearchRequest_of :: "string \<Rightarrow> SearchOptions \<Rightarrow> SearchRequest" where
  "SearchRequest_of query opts =
     \<lparr>sq_Query = query,
      sq_SearchDepth = defaultString (so_SearchDepth opts) DefaultSearchDepth,
      sq_Topic = defaultString (so_Topic opts) DefaultTopic,
      sq_TimeRange = so_TimeRange opts,
      sq_Days = so_Days opts,
      sq_MaxResults = defaultInt (so_MaxResults opts) DefaultMaxResults,
      sq_IncludeDomains = so_IncludeDomains opts,
      sq_ExcludeDomains = so_ExcludeDomains opts,
      sq_IncludeAnswer = so_IncludeAnswer opts,
      sq_IncludeRawContent = so_IncludeRawContent opts,
      sq_IncludeImages = so_IncludeImages opts,
      sq_IncludeImageDescriptions = so_IncludeImageDescriptions opts,
      sq_MaxTokens = so_MaxTokens opts,
      sq_ChunksPerSource = so_ChunksPerSource opts,
      sq_Country = so_Country opts,
      sq_Timeout = defaultInt (so_Timeout opts) 60\<rparr>"

definition Search ::
  "platform \<Rightarrow> Client \<Rightarrow> Context \<Rightarrow> string \<Rightarrow> SearchOptions option \<Rightarrow> request list
     \<Rightarrow> (error + SearchResponse) \<times> request list" where
  "Search p c ctx query opts0 sent =
     (let opts = (case opts0 of None \<Rightarrow> SearchOptions_zero | Some v \<Rightarrow> v);
          req = SearchRequest_of query opts;
          resp = SearchResponse_zero
      in (case doRequest p (Unmarshal_SearchResponse p) c ctx ''/search''
                 (Some (PSearch req)) (Some resp) sent of
            (Inl err, sent') \<Rightarrow> (Inl (Errorf_w ''search failed: '' err), sent')
          | (Inr r, sent') \<Rightarrow> (Inr (case r of None \<Rightarrow> resp | Some v \<Rightarrow> v), sent')))"

text \<open>The struct literal of Extract (client.go 208-214).\<close>

definition ExtractRequest_of :: "string list \<Rightarrow> ExtractOptions \<Rightarrow> ExtractRequest" where
  "ExtractRequest_of urls opts =
     \<lparr>eq_URLs = urls,
      eq_IncludeImages = eo_IncludeImages opts,
      eq_ExtractDepth = defaultString (eo_ExtractDepth opts) DefaultSearchDepth,
      eq_Format = defaultString (eo_Format opts) DefaultFormat,
      eq_Timeout = defaultInt (eo_Timeout opts) 60\<rparr>"

definition Extract ::
  "platform \<Rightarrow> Client \<Rightarrow> Context \<Rightarrow> string list \<Rightarrow> ExtractOptions option \<Rightarrow> request list
     \<Rightarrow> (error + ExtractResponse) \<times> request list" where
  "Extract p c ctx urls opts0 sent =
     (if length urls = 0 then
        (Inl (APIErr \<lparr>StatusCode = 400, Message = ''at least one URL is required''\<rparr>), sent)
      else
        (let opts = (case opts0 of None \<Rightarrow> ExtractOptions_zero | Some v \<Rightarrow> v);
             req = ExtractRequest_of urls opts;
             resp = ExtractResponse_zero
         in (case doRequest p (Unmarshal_ExtractResponse p) c ctx ''/extract''
                    (Some (PExtract req)) (Some resp) sent of
               (Inl err, sent') \<Rightarrow> (Inl (Errorf_w ''extract failed: '' err), sent')
             | (Inr r, sent') \<Rightarrow> (Inr (case r of None \<Rightarrow> resp | Some v \<Rightarrow> v), sent'))))"

text \<open>The struct literal of Crawl (client.go 237-253).\<close>

definition CrawlRequest_of :: "string \<Rightarrow> CrawlOptions \<Rightarrow> CrawlRequest" where
  "CrawlRequest_of url opts =
     \<lparr>cq_URL = url,
      cq_MaxDepth = defaultInt (co_MaxDepth opts) 1,
      cq_MaxBreadth = defaultInt (co_MaxBreadth opts) 20,
      cq_Limit = defaultInt (co_Limit opts) 50,
      cq_Instructions = co_Instructions opts,
      cq_ExtractDepth = defaultString (co_ExtractDepth opts) DefaultSearchDepth,
      cq_SelectPaths = co_SelectPaths opts,
      cq_SelectDomains = co_SelectDomains opts,
      cq_ExcludePaths = co_ExcludePaths opts,
      cq_ExcludeDomains = co_ExcludeDomains opts,
      cq_AllowExternal = co_AllowExternal opts,
      cq_IncludeImages = co_IncludeImages opts,
      cq_Categories = co_Categories opts,
      cq_Format = defaultString (co_Format opts) DefaultFormat,
      cq_Timeout = defaultInt (co_Timeout opts) 60\<rparr>"

definition Crawl ::
  "platform \<Rightarrow> Client \<Rightarrow> Context \<Rightarrow> string \<Rightarrow> CrawlOptions option \<Rightarrow> request list
     \<Rightarrow> (error + CrawlResponse) \<times> request list" where
  "Crawl p c ctx url opts0 sent =
     (if url = [] then
        (Inl (APIErr \<lparr>StatusCode = 400, Message = ''URL is required''\<rparr>), sent)
      else
        (let opts = (case opts0 of None \<Rightarrow> CrawlOptions_zero | Some v \<Rightarrow> v);
             req = CrawlRequest_of url opts;
             resp = CrawlResponse_zero
         in (case doRequest p (Unmarshal_CrawlResponse p) c ctx ''/crawl''
                    (Some (PCrawl req)) (Some resp) sent of
               (Inl err, sent') \<Rightarrow> (Inl (Errorf_w ''crawl failed: '' err), sent')
             | (Inr r, sent') \<Rightarrow> (Inr (case r of None \<Rightarrow> resp | Some v \<Rightarrow> v), sent'))))"

text \<open>The struct literal of Map (client.go 276-289).\<close>

definition MapRequest_of :: "string \<Rightarrow> MapOptions \<Rightarrow> MapRequest" where
  "MapRequest_of url opts =
     \<lparr>mq_URL = url,
      mq_MaxDepth = defaultInt (mo_MaxDepth opts) 1,
      mq_MaxBreadth = defaultInt (mo_MaxBreadth opts) 20,
      mq_Limit = defaultInt (mo_Limit opts) 50,
      mq_Instructions = mo_Instructions opts,
      mq_SelectPaths = mo_SelectPaths opts,
      mq_SelectDomains = mo_SelectDomains opts,
      mq_ExcludePaths = mo_ExcludePaths opts,
      mq_ExcludeDomains = mo_ExcludeDomains opts,
      mq_AllowExternal = mo_AllowExternal opts,
      mq_Categories = mo_Categories opts,
      mq_Timeout = defaultInt (mo_Timeout opts) 60\<rparr>"

definition Map ::
  "platform \<Rightarrow> Client \<Rightarrow> Context \<Rightarrow> string \<Rightarrow> MapOptions option \<Rightarrow> request list
     \<Rightarrow> (error + MapResponse) \<times> request list" where
  "Map p c ctx url opts0 sent =
     (if url = [] then
        (Inl (APIErr \<lparr>StatusCode = 400, Message = ''URL is required''\<rparr>), sent)
      else
        (let opts = (case opts0 of None \<Rightarrow> MapOptions_zero | Some v \<Rightarrow> v);
             req = MapRequest_of url opts;
             resp = MapResponse_zero
         in (case doRequest p (Unmarshal_MapResponse p) c ctx ''/map''
                    (Some (PMap req)) (Some resp) sent of
               (Inl err, sent') \<Rightarrow> (Inl (Errorf_w ''map failed: '' err), sent')
             | (Inr r, sent') \<Rightarrow> (Inr (case r of None \<Rightarrow> resp | Some v \<Rightarrow> v), sent'))))"

subsection \<open>Convenience presets (helpers.go)\<close>

definition BoolPtr :: "bool \<Rightarrow> bool option" where
  "BoolPtr b = Some b"

definition SearchSimple ::
  "platform \<Rightarrow> Client \<Rightarrow> Context \<Rightarrow> string \<Rightarrow> request list
     \<Rightarrow> (error + SearchResponse) \<times> request list" where
  "SearchSimple p c ctx query sent = Search p c ctx query None sent"

definition SearchWithAnswer ::
  "platform \<Rightarrow> Client \<Rightarrow> Context \<Rightarrow> string \<Rightarrow> request list
     \<Rightarrow> (error + SearchResponse) \<times> request list" where
  "SearchWithAnswer p c ctx query sent =
     (let opts = SearchOptions_zero\<lparr>so_IncludeAnswer := AnyBool True, so_MaxResults := 10\<rparr>
      in Search p c ctx query (Some opts) sent)"

definition SearchNews ::
  "platform \<Rightarrow> Client \<Rightarrow> Context \<Rightarrow> string \<Rightarrow> int \<Rightarrow> request list
     \<Rightarrow> (error + SearchResponse) \<times> request list" where
  "SearchNews p c ctx query days sent =
     (let opts = SearchOptions_zero\<lparr>so_Topic := TopicNews,
                   so_SearchDepth := SearchDepthAdvanced,
                   so_Days := days,
                   so_MaxResults := 15,
                   so_IncludeAnswer := AnyBool True\<rparr>
      in Search p c ctx query (Some opts) sent)"

definition ExtractSimple ::
  "platform \<Rightarrow> Client \<Rightarrow> Context \<Rightarrow> string \<Rightarrow> request list
     \<Rightarrow> (error + ExtractResponse) \<times> request list" where
  "ExtractSimple p c ctx url sent = Extract p c ctx [url] None sent"

definition ExtractWithImages ::
  "platform \<Rightarrow> Client \<Rightarrow> Context \<Rightarrow> string list \<Rightarrow> request list
     \<Rightarrow> (error + ExtractResponse) \<times> request list" where
  "ExtractWithImages p c ctx urls sent =
     (let opts = ExtractOptions_zero\<lparr>eo_IncludeImages := BoolPtr True,
                   eo_Format := FormatMarkdown,
                   eo_ExtractDepth := SearchDepthAdvanced\<rparr>
      in Extract p c ctx urls (Some opts) sent)"

definition CrawlDocumentation ::
  "platform \<Rightarrow> Client \<Rightarrow> Context \<Rightarrow> string \<Rightarrow> int \<Rightarrow> request list
     \<Rightarrow> (error + CrawlResponse) \<times> request list" where
  "CrawlDocumentation p c ctx url maxPages sent =
     (let opts = CrawlOptions_zero\<lparr>co_MaxDepth := 3,
                   co_Limit := maxPages,
                   co_Categories := [CategoryDocumentation, CategoryDeveloper],
                   co_SelectPaths := [''/docs/*'', ''/api/*'', ''/guide/*'', ''/tutorial/*''],
                   co_Format := FormatMarkdown,
                   co_AllowExternal := BoolPtr False\<rparr>
      in Crawl p c ctx url (Some opts) sent)"

definition MapSite ::
  "platform \<Rightarrow> Client \<Rightarrow> Context \<Rightarrow> string \<Rightarrow> request list
     \<Rightarrow> (error + MapResponse) \<times> request list" where
  "MapSite p c ctx url sent =
     (let opts = MapOptions_zero\<lparr>mo_MaxDepth := 2, mo_Limit := 100\<rparr>
      in Map p c ctx url (Some opts) sent)"

text \<open>\<^verbatim>\<open>%d\<close> of \<^verbatim>\<open>fmt.Sprintf\<close> on an int: its decimal digits, after a minus sign when it
  is negative.\<close>

fun digits :: "nat \<Rightarrow> string" where
  "digits n =
     (if n < 10 then [''0123456789'' ! n] else digits (n div 10) @ [''0123456789'' ! (n mod 10)])"

definition Sprint_d :: "int \<Rightarrow> string" where
  "Sprint_d i = (if i < 0 then CHR ''-'' # digits (nat (- i)) else digits (nat i))"

text \<open>The loop of GetSearchContext (helpers.go 88-91): \<open>i\<close> is the index of the next
  result, \<open>acc\<close> the string built so far.\<close>

fun appendSources :: "int \<Rightarrow> SearchResult list \<Rightarrow> string \<Rightarrow> string" where
  "appendSources i [] acc = acc"
| "appendSources i (r # rs) acc =
     appendSources (i + 1) rs
       (acc @ ''Source '' @ Sprint_d (i + 1) @ '': '' @ sr_Title r @ [CHR 0x0A]
            @ ''URL: '' @ sr_URL r @ [CHR 0x0A]
            @ ''Content: '' @ sr_Content r @ [CHR 0x0A, CHR 0x0A])"

definition GetSearchContext ::
  "platform \<Rightarrow> Client \<Rightarrow> Context \<Rightarrow> string \<Rightarrow> int \<Rightarrow> request list
     \<Rightarrow> (error + string) \<times> request list" where
  "GetSearchContext p c ctx query maxTokens sent =
     (let opts = SearchOptions_zero\<lparr>so_SearchDepth := SearchDepthAdvanced,
                   so_MaxResults := 5,
                   so_IncludeRawContent := AnyString FormatText,
                   so_MaxTokens := maxTokens\<rparr>
      in (case Search p c ctx query (Some opts) sent of
            (Inl err, sent') \<Rightarrow> (Inl (Errorf_w ''search failed: '' err), sent')
          | (Inr result, sent') \<Rightarrow>
              (Inr (appendSources 0 (sp_Results result)
                      (''Search query: '' @ query @ [CHR 0x0A, CHR 0x0A])),
               sent')))"

subsection \<open>A test double, after the httptest servers of client\_test.go\<close>

text \<open>
  A platform with no environment variable set, on which every request can be built, whose
  network answers each request with the given status and body, and whose decoders know the
  one error body of TestErrorHandling and otherwise report a syntax error.
\<close>

definition invalid_key_body :: string where
  "invalid_key_body = ''{\"detail\":{\"error\":\"Invalid API key provided\"}}''"

definition test_platform :: "int \<Rightarrow> string \<Rightarrow> platform" where
  "test_platform status body =
     \<lparr>Getenv = (\<lambda>name. []),
      NewRequest_error = (\<lambda>ctx method url. None),
      DefaultTransport = (\<lambda>req. Inr \<lparr>rs_StatusCode = status, rs_Body = Inr body\<rparr>),
      Unmarshal_errorResp =
        (\<lambda>data. if data = invalid_key_body then (None, ''Invalid API key provided'')
                 else (Some (LibError ''invalid character''), [])),
      Unmarshal_SearchResponse = (\<lambda>data resp. Inl (LibError ''invalid character'')),
      Unmarshal_ExtractResponse = (\<lambda>data resp. Inl (LibError ''invalid character'')),
      Unmarshal_CrawlResponse = (\<lambda>data resp. Inl (LibError ''invalid character'')),
      Unmarshal_MapResponse = (\<lambda>data resp. Inl (LibError ''invalid character''))\<rparr>"

text \<open>The client of TestInputValidation, the client built with neither key nor environment
  variable, the options of TestSearchWithOptions, and the request such a client sends.\<close>

definition test_client :: Client where
  "test_client = New (test_platform 200 []) ''tvly-test-key'' None"

definition keyless_client :: Client where
  "keyless_client = New (test_platform 200 []) [] None"



text \<open>The server of TestErrorHandling, which answers every request with status 401 and the
  error body above.\<close>

definition unauthorized_platform :: platform where
  "unauthorized_platform = test_platform 401 invalid_key_body"

subsection \<open>What a call puts on the wire\<close>

text \<open>
  The requests one call of doRequest with a payload hands to the HTTP client: none when
  the payload cannot be encoded, the key is empty or the request cannot be built, and
  otherwise the one POST request with the client's headers and the encoded payload.
  It is used to state and prove facts about doRequest; the code has no such function.
\<close>

definition wire :: "platform \<Rightarrow> Client \<Rightarrow> Context \<Rightarrow> string \<Rightarrow> payload \<Rightarrow> request list" where
  "wire p c ctx endpoint rb =
     (case Marshal rb of
        Inl err \<Rightarrow> []
      | Inr body \<Rightarrow>
          (if apiKey c = [] then []
           else (case NewRequest_error p ctx ''POST'' (baseURL c @ endpoint) of
                   Some err \<Rightarrow> []
                 | None \<Rightarrow>
                     [\<lparr>rq_ctx = ctx, rq_method = ''POST'', rq_url = baseURL c @ endpoint,
                       rq_header = headers c, rq_body = Some body\<rparr>])))"

section \<open>Auxiliary facts\<close>

lemma doRequest_no_key:
  "apiKey c = [] \<Longrightarrow> \<exists>a. doRequest p u c ctx ep rb resp sent = (Inl (APIErr a), sent) \<and> StatusCode a = 401"
  by (simp add: doRequest_def)

lemma doRequest_sent:
  "snd (doRequest p u c ctx ep (Some rb) resp sent) = sent @ wire p c ctx ep rb"
  by (auto simp: doRequest_def wire_def NewRequestWithContext_def Let_def
           split: sum.splits option.splits)

lemma snd_wrap:
  "snd (case x of (Inl err, s) \<Rightarrow> (Inl (f err), s) | (Inr r, s) \<Rightarrow> (Inr (g r), s)) = snd x"
  by (simp split: prod.splits sum.splits)

lemma fst_wrap:
  "fst (case x of (Inl err, s) \<Rightarrow> (Inl (f err), s) | (Inr r, s) \<Rightarrow> (Inr (g r), s)) =
     (case fst x of Inl err \<Rightarrow> Inl (f err) | Inr r \<Rightarrow> Inr (g r))"
  by (simp split: prod.splits sum.splits)

lemma Search_sent:
  "snd (Search p c ctx q opts0 sent) =
     sent @ wire p c ctx ''/search''
       (PSearch (SearchRequest_of q (case opts0 of None \<Rightarrow> SearchOptions_zero | Some v \<Rightarrow> v)))"
  by (simp add: Search_def Let_def snd_wrap doRequest_sent)

lemma Extract_sent:
  "snd (Extract p c ctx urls opts0 sent) =
     (if urls = [] then sent
      else sent @ wire p c ctx ''/extract''
       (PExtract (ExtractRequest_of urls (case opts0 of None \<Rightarrow> ExtractOptions_zero | Some v \<Rightarrow> v))))"
  by (simp add: Extract_def Let_def snd_wrap doRequest_sent)

lemma Crawl_sent:
  "snd (Crawl p c ctx url opts0 sent) =
     (if url = [] then sent
      else sent @ wire p c ctx ''/crawl''
       (PCrawl (CrawlRequest_of url (case opts0 of None \<Rightarrow> CrawlOptions_zero | Some v \<Rightarrow> v))))"
  by (simp add: Crawl_def Let_def snd_wrap doRequest_sent)

lemma Map_sent:
  "snd (Map p c ctx url opts0 sent) =
     (if url = [] then sent
      else sent @ wire p c ctx ''/map''
       (PMap (MapRequest_of url (case opts0 of None \<Rightarrow> MapOptions_zero | Some v \<Rightarrow> v))))"
  by (simp add: Map_def Let_def snd_wrap doRequest_sent)

lemma Search_result:
  "fst (Search p c ctx q opts0 sent) =
     (case fst (doRequest p (Unmarshal_SearchResponse p) c ctx ''/search''
          (Some (PSearch (SearchRequest_of q
             (case opts0 of None \<Rightarrow> SearchOptions_zero | Some v \<Rightarrow> v))))
          (Some SearchResponse_zero) sent) of
        Inl err \<Rightarrow> Inl (Errorf_w ''search failed: '' err)
      | Inr r \<Rightarrow> Inr (case r of None \<Rightarrow> SearchResponse_zero | Some v \<Rightarrow> v))"
  by (simp add: Search_def Let_def fst_wrap)

lemma Extract_result:
  "fst (Extract p c ctx urls opts0 sent) =
     (if urls = [] then
        Inl (APIErr \<lparr>StatusCode = 400, Message = ''at least one URL is required''\<rparr>)
      else
        (case fst (doRequest p (Unmarshal_ExtractResponse p) c ctx ''/extract''
             (Some (PExtract (ExtractRequest_of urls
                (case opts0 of None \<Rightarrow> ExtractOptions_zero | Some v \<Rightarrow> v))))
             (Some ExtractResponse_zero) sent) of
           Inl err \<Rightarrow> Inl (Errorf_w ''extract failed: '' err)
         | Inr r \<Rightarrow> Inr (case r of None \<Rightarrow> ExtractResponse_zero | Some v \<Rightarrow> v)))"
  by (simp add: Extract_def Let_def fst_wrap)

lemma Crawl_result:
  "fst (Crawl p c ctx url opts0 sent) =
     (if url = [] then Inl (APIErr \<lparr>StatusCode = 400, Message = ''URL is required''\<rparr>)
      else
        (case fst (doRequest p (Unmarshal_CrawlResponse p) c ctx ''/crawl''
             (Some (PCrawl (CrawlRequest_of url
                (case opts0 of None \<Rightarrow> CrawlOptions_zero | Some v \<Rightarrow> v))))
             (Some CrawlResponse_zero) sent) of
           Inl err \<Rightarrow> Inl (Errorf_w ''crawl failed: '' err)
         | Inr r \<Rightarrow> Inr (case r of None \<Rightarrow> CrawlResponse_zero | Some v \<Rightarrow> v)))"
  by (simp add: Crawl_def Let_def fst_wrap)

lemma Map_result:
  "fst (Map p c ctx url opts0 sent) =
     (if url = [] then Inl (APIErr \<lparr>StatusCode = 400, Message = ''URL is required''\<rparr>)
      else
        (case fst (doRequest p (Unmarshal_MapResponse p) c ctx ''/map''
             (Some (PMap (MapRequest_of url
                (case opts0 of None \<Rightarrow> MapOptions_zero | Some v \<Rightarrow> v))))
             (Some MapResponse_zero) sent) of
           Inl err \<Rightarrow> Inl (Errorf_w ''map failed: '' err)
         | Inr r \<Rightarrow> Inr (case r of None \<Rightarrow> MapResponse_zero | Some v \<Rightarrow> v)))"
  by (simp add: Map_def Let_def fst_wrap)

lemma doRequest_no_key_fst:
  "apiKey c = [] \<Longrightarrow>
   \<exists>a. fst (doRequest p u c ctx ep rb resp sent) = Inl (APIErr a) \<and> StatusCode a = 401"
  by (simp add: doRequest_def)

lemma wire_no_key: "apiKey c = [] \<Longrightarrow> wire p c ctx ep rb = []"
  by (simp add: wire_def split: sum.splits)

lemma errors_As_Errorf_w: "errors_As (Errorf_w prefix err) = errors_As err"
  by (simp add: Errorf_w_def)

lemma errors_Is_Errorf_w: "errors_Is (Errorf_w prefix err) err"
  by (cases err) (simp_all add: Errorf_w_def errors_Is_def)


lemma map_of_omitempty_string:
  "map_of (omitempty_string key v) k = (if k = key \<and> v \<noteq> [] then Some (JString v) else None)"
  by (simp add: omitempty_string_def)

lemma map_of_omitempty_int:
  "map_of (omitempty_int key v) k = (if k = key \<and> v \<noteq> 0 then Some (JNumber v) else None)"
  by (simp add: omitempty_int_def)

lemma map_of_omitempty_strings:
  "map_of (omitempty_strings key vs) k =
     (if k = key \<and> vs \<noteq> [] then Some (JArray (map JString vs)) else None)"
  by (simp add: omitempty_strings_def)

lemma map_of_omitempty_boolptr:
  "map_of (omitempty_boolptr key b) k = (if k = key then map_option JBool b else None)"
  by (simp add: omitempty_boolptr_def split: option.splits)

lemma map_of_omitempty_any:
  "omitempty_any key v = Inr ms \<Longrightarrow>
   map_of ms k =
     (if k = key then
        (case v of AnyNil \<Rightarrow> None | AnyBool b \<Rightarrow> Some (JBool b) | AnyString s \<Rightarrow> Some (JString s)
         | AnyEncodable j \<Rightarrow> Some j | AnyUnsupported \<Rightarrow> None)
      else None)"
  by (auto simp: omitempty_any_def split: any_value.splits)

lemmas map_of_omitempty =
  map_add_def map_of_omitempty_string map_of_omitempty_int map_of_omitempty_strings
  map_of_omitempty_boolptr

lemma marshal_SearchRequest_Inr:
  assumes "marshal_SearchRequest r = Inr body"
  obtains answer raw where
    "omitempty_any ''include_answer'' (sq_IncludeAnswer r) = Inr answer"
    "omitempty_any ''include_raw_content'' (sq_IncludeRawContent r) = Inr raw"
    "body = JObject
       ([(''query'', JString (sq_Query r))]
        @ omitempty_string ''search_depth'' (sq_SearchDepth r)
        @ omitempty_string ''topic'' (sq_Topic r)
        @ omitempty_string ''time_range'' (sq_TimeRange r)
        @ omitempty_int ''days'' (sq_Days r)
        @ omitempty_int ''max_results'' (sq_MaxResults r)
        @ omitempty_strings ''include_domains'' (sq_IncludeDomains r)
        @ omitempty_strings ''exclude_domains'' (sq_ExcludeDomains r)
        @ answer
        @ raw
        @ omitempty_boolptr ''include_images'' (sq_IncludeImages r)
        @ omitempty_boolptr ''include_image_descriptions'' (sq_IncludeImageDescriptions r)
        @ omitempty_int ''max_tokens'' (sq_MaxTokens r)
        @ omitempty_int ''chunks_per_source'' (sq_ChunksPerSource r)
        @ omitempty_string ''country'' (sq_Country r)
        @ omitempty_int ''timeout'' (sq_Timeout r))"
  using assms by (auto simp: marshal_SearchRequest_def split: sum.splits)

lemma member_SearchRequest:
  assumes "marshal_SearchRequest r = Inr body"
  shows "member body ''query'' = Some (JString (sq_Query r))"
    and "member body ''search_depth'' =
           (if sq_SearchDepth r = [] then None else Some (JString (sq_SearchDepth r)))"
    and "member body ''topic'' = (if sq_Topic r = [] then None else Some (JString (sq_Topic r)))"
    and "member body ''max_results'' =
           (if sq_MaxResults r = 0 then None else Some (JNumber (sq_MaxResults r)))"
    and "member body ''timeout'' =
           (if sq_Timeout r = 0 then None else Some (JNumber (sq_Timeout r)))"
    and "member body ''include_images'' = map_option JBool (sq_IncludeImages r)"
    and "member body ''include_image_descriptions'' =
           map_option JBool (sq_IncludeImageDescriptions r)"
    and "member body ''include_answer'' =
           (case sq_IncludeAnswer r of AnyNil \<Rightarrow> None | AnyBool b \<Rightarrow> Some (JBool b)
            | AnyString s \<Rightarrow> Some (JString s) | AnyEncodable j \<Rightarrow> Some j
            | AnyUnsupported \<Rightarrow> None)"
    and "member body ''include_raw_content'' =
           (case sq_IncludeRawContent r of AnyNil \<Rightarrow> None | AnyBool b \<Rightarrow> Some (JBool b)
            | AnyString s \<Rightarrow> Some (JString s) | AnyEncodable j \<Rightarrow> Some j
            | AnyUnsupported \<Rightarrow> None)"
proof -
  from assms obtain answer raw where
    a: "omitempty_any ''include_answer'' (sq_IncludeAnswer r) = Inr answer" and
    b: "omitempty_any ''include_raw_content'' (sq_IncludeRawContent r) = Inr raw" and
    c: "body = JObject
       ([(''query'', JString (sq_Query r))]
        @ omitempty_string ''search_depth'' (sq_SearchDepth r)
        @ omitempty_string ''topic'' (sq_Topic r)
        @ omitempty_string ''time_range'' (sq_TimeRange r)
        @ omitempty_int ''days'' (sq_Days r)
        @ omitempty_int ''max_results'' (sq_MaxResults r)
        @ omitempty_strings ''include_domains'' (sq_IncludeDomains r)
        @ omitempty_strings ''exclude_domains'' (sq_ExcludeDomains r)
        @ answer
        @ raw
        @ omitempty_boolptr ''include_images'' (sq_IncludeImages r)
        @ omitempty_boolptr ''include_image_descriptions'' (sq_IncludeImageDescriptions r)
        @ omitempty_int ''max_tokens'' (sq_MaxTokens r)
        @ omitempty_int ''chunks_per_source'' (sq_ChunksPerSource r)
        @ omitempty_string ''country'' (sq_Country r)
        @ omitempty_int ''timeout'' (sq_Timeout r))"
    by (rule marshal_SearchRequest_Inr)
  note ma = map_of_omitempty_any [OF a] map_of_omitempty_any [OF b]
  show "member body ''query'' = Some (JString (sq_Query r))"
    by (simp add: c)
  show "member body ''search_depth'' =
           (if sq_SearchDepth r = [] then None else Some (JString (sq_SearchDepth r)))"
    by (simp add: c map_of_omitempty ma split: option.splits any_value.splits)
  show "member body ''topic'' = (if sq_Topic r = [] then None else Some (JString (sq_Topic r)))"
    by (simp add: c map_of_omitempty ma split: option.splits any_value.splits)
  show "member body ''max_results'' =
           (if sq_MaxResults r = 0 then None else Some (JNumber (sq_MaxResults r)))"
    by (simp add: c map_of_omitempty ma split: option.splits any_value.splits)
  show "member body ''timeout'' =
           (if sq_Timeout r = 0 then None else Some (JNumber (sq_Timeout r)))"
    by (simp add: c map_of_omitempty ma split: option.splits any_value.splits)
  show "member body ''include_images'' = map_option JBool (sq_IncludeImages r)"
    by (simp add: c map_of_omitempty ma split: option.splits any_value.splits)
  show "member body ''include_image_descriptions'' =
           map_option JBool (sq_IncludeImageDescriptions r)"
    by (simp add: c map_of_omitempty ma split: option.splits any_value.splits)
  show "member body ''include_answer'' =
           (case sq_IncludeAnswer r of AnyNil \<Rightarrow> None | AnyBool b \<Rightarrow> Some (JBool b)
            | AnyString s \<Rightarrow> Some (JString s) | AnyEncodable j \<Rightarrow> Some j
            | AnyUnsupported \<Rightarrow> None)"
    by (simp add: c map_of_omitempty ma split: option.splits any_value.splits)
  show "member body ''include_raw_content'' =
           (case sq_IncludeRawContent r of AnyNil \<Rightarrow> None | AnyBool b \<Rightarrow> Some (JBool b)
            | AnyString s \<Rightarrow> Some (JString s) | AnyEncodable j \<Rightarrow> Some j
            | AnyUnsupported \<Rightarrow> None)"
    by (simp add: c map_of_omitempty ma split: option.splits any_value.splits)
qed

lemma wire_sends:
  "apiKey c \<noteq> [] \<Longrightarrow> Marshal rb = Inr body \<Longrightarrow>
   NewRequest_error p ctx ''POST'' (baseURL c @ ep) = None \<Longrightarrow>
   wire p c ctx ep rb =
     [\<lparr>rq_ctx = ctx, rq_method = ''POST'', rq_url = baseURL c @ ep,
       rq_header = headers c, rq_body = Some body\<rparr>]"
  by (simp add: wire_def)


lemma member_ExtractRequest:
  assumes "marshal_ExtractRequest r = Inr body"
  shows "member body ''urls'' = Some (JArray (map JString (eq_URLs r)))"
    and "member body ''include_images'' = map_option JBool (eq_IncludeImages r)"
    and "member body ''extract_depth'' =
           (if eq_ExtractDepth r = [] then None else Some (JString (eq_ExtractDepth r)))"
    and "member body ''format'' =
           (if eq_Format r = [] then None else Some (JString (eq_Format r)))"
    and "member body ''timeout'' =
           (if eq_Timeout r = 0 then None else Some (JNumber (eq_Timeout r)))"
  using assms
  by (auto simp: marshal_ExtractRequest_def map_of_omitempty split: option.splits)

lemma member_CrawlRequest:
  assumes "marshal_CrawlRequest r = Inr body"
  shows "member body ''url'' = Some (JString (cq_URL r))"
    and "member body ''max_depth'' =
           (if cq_MaxDepth r = 0 then None else Some (JNumber (cq_MaxDepth r)))"
    and "member body ''max_breadth'' =
           (if cq_MaxBreadth r = 0 then None else Some (JNumber (cq_MaxBreadth r)))"
    and "member body ''limit'' =
           (if cq_Limit r = 0 then None else Some (JNumber (cq_Limit r)))"
    and "member body ''allow_external'' = map_option JBool (cq_AllowExternal r)"
    and "member body ''include_images'' = map_option JBool (cq_IncludeImages r)"
    and "member body ''timeout'' =
           (if cq_Timeout r = 0 then None else Some (JNumber (cq_Timeout r)))"
  using assms
  by (auto simp: marshal_CrawlRequest_def map_of_omitempty split: option.splits)

lemma member_MapRequest:
  assumes "marshal_MapRequest r = Inr body"
  shows "member body ''url'' = Some (JString (mq_URL r))"
    and "member body ''max_depth'' =
           (if mq_MaxDepth r = 0 then None else Some (JNumber (mq_MaxDepth r)))"
    and "member body ''max_breadth'' =
           (if mq_MaxBreadth r = 0 then None else Some (JNumber (mq_MaxBreadth r)))"
    and "member body ''limit'' =
           (if mq_Limit r = 0 then None else Some (JNumber (mq_Limit r)))"
    and "member body ''allow_external'' = map_option JBool (mq_AllowExternal r)"
    and "member body ''timeout'' =
           (if mq_Timeout r = 0 then None else Some (JNumber (mq_Timeout r)))"
  using assms
  by (auto simp: marshal_MapRequest_def map_of_omitempty split: option.splits)


lemma test_client_simps:
  "apiKey test_client = ''tvly-test-key''"
  "baseURL test_client = ''https://api.tavily.com''"
  "httpClient test_client = \<lparr>hc_Timeout = 60000000000, hc_Transport = None\<rparr>"
  by (simp_all add: Let_def test_client_def New_def Options_zero_def DefaultBaseURL_def TrimSuffix_def
        HasSuffix_def DefaultTimeout_def Second_def)

lemma keyless_client_simps:
  "apiKey keyless_client = []"
  "baseURL keyless_client = ''https://api.tavily.com''"
  by (simp_all add: Let_def keyless_client_def New_def Options_zero_def DefaultBaseURL_def TrimSuffix_def
        HasSuffix_def test_platform_def)

lemma test_platform_simps:
  "NewRequest_error (test_platform s b) ctx m u = None"
  "DefaultTransport (test_platform s b) rq = Inr \<lparr>rs_StatusCode = s, rs_Body = Inr b\<rparr>"
  by (simp_all add: test_platform_def)


lemma marshal_zero_query:
  "marshal_SearchRequest (SearchRequest_of q SearchOptions_zero) =
      Inr (JObject [(''query'', JString q), (''search_depth'', JString ''basic''),
                  (''topic'', JString ''general''), (''max_results'', JNumber 5),
                  (''timeout'', JNumber 60)])"
  by (simp add: marshal_SearchRequest_def SearchRequest_of_def
        SearchOptions_zero_def defaultString_def defaultInt_def omitempty_any_def
        omitempty_string_def omitempty_int_def omitempty_strings_def omitempty_boolptr_def
        DefaultSearchDepth_def DefaultTopic_def DefaultMaxResults_def)

lemma no_key_wrapped:
  assumes "apiKey c = []"
  shows "\<exists>e a. (case fst (doRequest p u c ctx ep rb resp sent) of
                   Inl err \<Rightarrow> Inl (Errorf_w prefix err)
                 | Inr r \<Rightarrow> Inr (g r)) = Inl e
           \<and> errors_As e = Some a \<and> StatusCode a = 401 \<and> IsUnauthorized a"
  using assms by (simp add: doRequest_def errors_As_Errorf_w IsUnauthorized_def)

lemma parseAPIError_eq:
  "parseAPIError p status data =
     APIErr \<lparr>StatusCode = status,
       Message = (if fst (Unmarshal_errorResp p data) = None
                     \<and> snd (Unmarshal_errorResp p data) \<noteq> []
                  then snd (Unmarshal_errorResp p data) else ''unknown error'')\<rparr>"
  by (simp add: parseAPIError_def Let_def split: prod.splits)

lemma doRequest_non200:
  assumes "apiKey c \<noteq> []" and "Marshal rb = Inr body"
    and "NewRequest_error p ctx ''POST'' (baseURL c @ ep) = None"
    and "Do p (httpClient c)
           \<lparr>rq_ctx = ctx, rq_method = ''POST'', rq_url = baseURL c @ ep,
            rq_header = headers c, rq_body = Some body\<rparr> = Inr resp"
    and "rs_Body resp = Inr data" and "rs_StatusCode resp \<noteq> 200"
  shows "fst (doRequest p unmarshal c ctx ep (Some rb) responseBody sent) =
           Inl (parseAPIError p (rs_StatusCode resp) data)"
  using assms by (simp add: doRequest_def NewRequestWithContext_def Let_def)


lemma test_Unmarshal_errorResp:
  "Unmarshal_errorResp (test_platform s b) invalid_key_body = (None, ''Invalid API key provided'')"
  "Unmarshal_errorResp (test_platform s b) ''<html>Bad Gateway</html>'' =
     (Some (LibError ''invalid character''), [])"
  by (simp_all add: test_platform_def invalid_key_body_def)

lemma wrap_keeps_kind:
  assumes "(case x of Inl err \<Rightarrow> Inl (Errorf_w prefix err) | Inr r \<Rightarrow> Inr (g r)) = Inl e"
  shows "\<exists>e0. x = Inl e0 \<and> e = Errorf_w prefix e0 \<and> errors_As e = errors_As e0
           \<and> errors_Is e e0 \<and> Error e = prefix @ Error e0"
proof (cases x)
  case (Inl e0)
  with assms have e: "e = Errorf_w prefix e0" by simp
  have "Error (Errorf_w prefix e0) = prefix @ Error e0" by (simp add: Errorf_w_def)
  with Inl e show ?thesis
    by (simp add: errors_As_Errorf_w errors_Is_Errorf_w)
next
  case (Inr r)
  with assms show ?thesis by simp
qed

lemma test_Do_default:
  "Do (test_platform s b) \<lparr>hc_Timeout = t, hc_Transport = None\<rparr> rq =
     Inr \<lparr>rs_StatusCode = s, rs_Body = Inr b\<rparr>"
  by (simp add: Do_def test_platform_simps)

lemma unauthorized_doRequest:
  assumes "Marshal rb = Inr body"
  shows "fst (doRequest unauthorized_platform u test_client Background ep (Some rb) resp sent) =
           Inl (APIErr \<lparr>StatusCode = 401, Message = ''Invalid API key provided''\<rparr>)"
  using doRequest_non200
    [where p = unauthorized_platform and c = test_client and rb = rb and body = body
       and ctx = Background and ep = ep
       and resp = "\<lparr>rs_StatusCode = 401, rs_Body = Inr invalid_key_body\<rparr>"
       and data = invalid_key_body and unmarshal = u and responseBody = resp and sent = sent]
    assms
  by (simp add: unauthorized_platform_def test_Do_default test_platform_simps test_client_simps
        parseAPIError_eq test_Unmarshal_errorResp)

lemma unauthorized_results:
  "fst (Search unauthorized_platform test_client Background ''test'' None []) =
     Inl (Errorf_w ''search failed: ''
            (APIErr \<lparr>StatusCode = 401, Message = ''Invalid API key provided''\<rparr>))"
  "fst (Extract unauthorized_platform test_client Background [''https://example.com''] None []) =
     Inl (Errorf_w ''extract failed: ''
            (APIErr \<lparr>StatusCode = 401, Message = ''Invalid API key provided''\<rparr>))"
  "fst (Crawl unauthorized_platform test_client Background ''https://example.com'' None []) =
     Inl (Errorf_w ''crawl failed: ''
            (APIErr \<lparr>StatusCode = 401, Message = ''Invalid API key provided''\<rparr>))"
  "fst (Map unauthorized_platform test_client Background ''https://example.com'' None []) =
     Inl (Errorf_w ''map failed: ''
            (APIErr \<lparr>StatusCode = 401, Message = ''Invalid API key provided''\<rparr>))"
proof -
  have s: "Marshal (PSearch (SearchRequest_of ''test'' SearchOptions_zero)) =
      Inr (JObject [(''query'', JString ''test''), (''search_depth'', JString ''basic''),
                  (''topic'', JString ''general''), (''max_results'', JNumber 5),
                  (''timeout'', JNumber 60)])"
    by (simp add: marshal_zero_query)
  show "fst (Search unauthorized_platform test_client Background ''test'' None []) =
     Inl (Errorf_w ''search failed: ''
            (APIErr \<lparr>StatusCode = 401, Message = ''Invalid API key provided''\<rparr>))"
    by (simp add: Search_result unauthorized_doRequest [OF s])
  obtain eb where e: "Marshal (PExtract (ExtractRequest_of [''https://example.com'']
      ExtractOptions_zero)) = Inr eb"
    by (simp add: marshal_ExtractRequest_def)
  show "fst (Extract unauthorized_platform test_client Background [''https://example.com'']
          None []) =
     Inl (Errorf_w ''extract failed: ''
            (APIErr \<lparr>StatusCode = 401, Message = ''Invalid API key provided''\<rparr>))"
    by (simp add: Extract_result unauthorized_doRequest [OF e])
  obtain cb where c: "Marshal (PCrawl (CrawlRequest_of ''https://example.com''
      CrawlOptions_zero)) = Inr cb"
    by (simp add: marshal_CrawlRequest_def)
  show "fst (Crawl unauthorized_platform test_client Background ''https://example.com'' None []) =
     Inl (Errorf_w ''crawl failed: ''
            (APIErr \<lparr>StatusCode = 401, Message = ''Invalid API key provided''\<rparr>))"
    by (simp add: Crawl_result unauthorized_doRequest [OF c])
  obtain mb where m: "Marshal (PMap (MapRequest_of ''https://example.com''
      MapOptions_zero)) = Inr mb"
    by (simp add: marshal_MapRequest_def)
  show "fst (Map unauthorized_platform test_client Background ''https://example.com'' None []) =
     Inl (Errorf_w ''map failed: ''
            (APIErr \<lparr>StatusCode = 401, Message = ''Invalid API key provided''\<rparr>))"
    by (simp add: Map_result unauthorized_doRequest [OF m])
qed

lemma unauthorized_context:
  "fst (GetSearchContext unauthorized_platform test_client Background ''test'' 1000 []) =
     Inl (Errorf_w ''search failed: '' (Errorf_w ''search failed: ''
            (APIErr \<lparr>StatusCode = 401, Message = ''Invalid API key provided''\<rparr>)))"
proof -
  obtain b where m: "Marshal (PSearch (SearchRequest_of ''test''
      (SearchOptions_zero\<lparr>so_SearchDepth := SearchDepthAdvanced, so_MaxResults := 5,
         so_IncludeRawContent := AnyString FormatText, so_MaxTokens := 1000\<rparr>))) = Inr b"
    by (simp add: marshal_SearchRequest_def SearchRequest_of_def SearchOptions_zero_def
          omitempty_any_def)
  show ?thesis
    by (simp add: GetSearchContext_def Let_def fst_wrap Search_result
          unauthorized_doRequest [OF m])
qed






lemma marshal_SearchRequest_ok:
  "sq_IncludeAnswer r \<noteq> AnyUnsupported \<Longrightarrow> sq_IncludeRawContent r \<noteq> AnyUnsupported \<Longrightarrow>
   \<exists>body. marshal_SearchRequest r = Inr body"
  by (auto simp: marshal_SearchRequest_def omitempty_any_def split: any_value.splits)

lemma drop_last_char: "s \<noteq> [] \<Longrightarrow> drop (length s - Suc 0) s = [last s]"
  by (cases s rule: rev_cases) auto

lemma TrimSuffix_slash:
  "TrimSuffix (b @ ''/'') ''/'' = b"
  "s \<noteq> [] \<Longrightarrow> last s \<noteq> CHR ''/'' \<Longrightarrow> TrimSuffix s ''/'' = s"
  "TrimSuffix [] ''/'' = []"
  by (simp_all add: TrimSuffix_def HasSuffix_def drop_last_char)

section \<open>Error classification\<close>

text \<open>
  Claim C2. Each of the four predicates of an APIError holds exactly on its documented
  status codes (401; 429; 403, 432 or 433; 400), no two of them hold together, and on
  every other code, 500 for one, none of them holds.
\<close>

theorem classification_exact_and_exclusive:
  "(IsUnauthorized e = (StatusCode e = 401))
   \<and> (IsRateLimit e = (StatusCode e = 429))
   \<and> (IsForbidden e = (StatusCode e \<in> {403, 432, 433}))
   \<and> (IsBadRequest e = (StatusCode e = 400))
   \<and> \<not> (IsUnauthorized e \<and> IsRateLimit e) \<and> \<not> (IsUnauthorized e \<and> IsForbidden e)
   \<and> \<not> (IsUnauthorized e \<and> IsBadRequest e) \<and> \<not> (IsRateLimit e \<and> IsForbidden e)
   \<and> \<not> (IsRateLimit e \<and> IsBadRequest e) \<and> \<not> (IsForbidden e \<and> IsBadRequest e)
   \<and> ((IsUnauthorized e \<or> IsRateLimit e \<or> IsForbidden e \<or> IsBadRequest e)
        = (StatusCode e \<in> {400, 401, 403, 429, 432, 433}))
   \<and> \<not> IsUnauthorized (e\<lparr>StatusCode := 500\<rparr>) \<and> \<not> IsRateLimit (e\<lparr>StatusCode := 500\<rparr>)
   \<and> \<not> IsForbidden (e\<lparr>StatusCode := 500\<rparr>) \<and> \<not> IsBadRequest (e\<lparr>StatusCode := 500\<rparr>)"
  by (auto simp: IsUnauthorized_def IsRateLimit_def IsForbidden_def IsBadRequest_def)

section \<open>Default substitution\<close>



section \<open>Input validation\<close>

text \<open>
  Claim C3. Extract with an empty URL list, and Crawl and Map with an empty URL, return the
  APIError with status code 400, for which IsBadRequest holds, and leave the list of sent
  requests as it was. Search has no such check: an empty query never changes whether the
  network is reached, and on a client with a key, whose request can be built and whose
  payload can be encoded, Search with the empty query sends its request, with the member
  "query" the empty string.
\<close>

theorem empty_target_fails_fast:
  "Extract p c ctx [] eopts sent =
     (Inl (APIErr \<lparr>StatusCode = 400, Message = ''at least one URL is required''\<rparr>), sent)
   \<and> Crawl p c ctx [] copts sent =
     (Inl (APIErr \<lparr>StatusCode = 400, Message = ''URL is required''\<rparr>), sent)
   \<and> Map p c ctx [] mopts sent =
     (Inl (APIErr \<lparr>StatusCode = 400, Message = ''URL is required''\<rparr>), sent)
   \<and> IsBadRequest \<lparr>StatusCode = 400, Message = ''at least one URL is required''\<rparr>
   \<and> IsBadRequest \<lparr>StatusCode = 400, Message = ''URL is required''\<rparr>
   \<and> ((snd (Search p c ctx [] sopts sent) = sent) = (snd (Search p c ctx q sopts sent) = sent))
   \<and> (apiKey c \<noteq> [] \<and> NewRequest_error p ctx ''POST'' (baseURL c @ ''/search'') = None
        \<and> Marshal (PSearch (SearchRequest_of []
              (case sopts of None \<Rightarrow> SearchOptions_zero | Some v \<Rightarrow> v))) = Inr body \<longrightarrow>
        snd (Search p c ctx [] sopts sent) =
          sent @ [\<lparr>rq_ctx = ctx, rq_method = ''POST'', rq_url = baseURL c @ ''/search'',
                   rq_header = headers c, rq_body = Some body\<rparr>]
        \<and> member body ''query'' = Some (JString []))"
proof -
  have indep: "(wire p c ctx ''/search'' (PSearch (SearchRequest_of [] ov)) = []) =
        (wire p c ctx ''/search'' (PSearch (SearchRequest_of q ov)) = [])" for ov
    by (simp add: wire_def marshal_SearchRequest_def SearchRequest_of_def
          split: sum.splits option.splits)
  have same: "(snd (Search p c ctx [] sopts sent) = sent) = (snd (Search p c ctx q sopts sent) = sent)"
    by (simp add: Search_sent indep)
  have net: "snd (Search p c ctx [] sopts sent) =
          sent @ [\<lparr>rq_ctx = ctx, rq_method = ''POST'', rq_url = baseURL c @ ''/search'',
                   rq_header = headers c, rq_body = Some body\<rparr>]
        \<and> member body ''query'' = Some (JString [])"
    if "apiKey c \<noteq> []" "NewRequest_error p ctx ''POST'' (baseURL c @ ''/search'') = None"
       "Marshal (PSearch (SearchRequest_of []
              (case sopts of None \<Rightarrow> SearchOptions_zero | Some v \<Rightarrow> v))) = Inr body"
    using that member_SearchRequest(1) [of "SearchRequest_of []
              (case sopts of None \<Rightarrow> SearchOptions_zero | Some v \<Rightarrow> v)" body]
    by (simp add: Search_sent wire_sends SearchRequest_of_def)
  show ?thesis
    using same net
    by (simp add: Extract_def Crawl_def Map_def IsBadRequest_def)
qed

theorem empty_target_fails_fast_witness:
  "apiKey test_client \<noteq> []
   \<and> NewRequest_error (test_platform 200 []) Background ''POST''
         (baseURL test_client @ ''/search'') = None
   \<and> Marshal (PSearch (SearchRequest_of [] SearchOptions_zero)) =
       Inr (JObject [(''query'', JString []), (''search_depth'', JString ''basic''),
                  (''topic'', JString ''general''), (''max_results'', JNumber 5),
                  (''timeout'', JNumber 60)])
   \<and> snd (Search (test_platform 200 []) test_client Background [] None []) =
       [] @ [\<lparr>rq_ctx = Background, rq_method = ''POST'',
               rq_url = baseURL test_client @ ''/search'', rq_header = headers test_client,
               rq_body = Some (JObject [(''query'', JString []),
                  (''search_depth'', JString ''basic''), (''topic'', JString ''general''),
                  (''max_results'', JNumber 5), (''timeout'', JNumber 60)])\<rparr>]
   \<and> Extract (test_platform 200 []) test_client Background [] None [] =
       (Inl (APIErr \<lparr>StatusCode = 400, Message = ''at least one URL is required''\<rparr>), [])"
  using empty_target_fails_fast
    [where p = "test_platform 200 []" and c = test_client and ctx = Background
       and sopts = None and sent = "[]" and eopts = None
       and body = "JObject [(''query'', JString []), (''search_depth'', JString ''basic''),
                  (''topic'', JString ''general''), (''max_results'', JNumber 5),
                  (''timeout'', JNumber 60)]"]
  by (simp add: test_client_simps test_platform_simps marshal_zero_query)

section \<open>Missing credential\<close>

text \<open>
  Claim C4, as stated, fails: Extract, Crawl and Map check their target before doRequest
  checks the key, so on a client without a key Extract with an empty URL list returns the
  400 error, for which IsUnauthorized does not hold.
\<close>

theorem missing_key_counterexample:
  "apiKey keyless_client = []
   \<and> Extract (test_platform 200 []) keyless_client Background [] None [] =
       (Inl (APIErr \<lparr>StatusCode = 400, Message = ''at least one URL is required''\<rparr>), [])
   \<and> errors_As (APIErr \<lparr>StatusCode = 400, Message = ''at least one URL is required''\<rparr>) =
       Some \<lparr>StatusCode = 400, Message = ''at least one URL is required''\<rparr>
   \<and> \<not> IsUnauthorized \<lparr>StatusCode = 400, Message = ''at least one URL is required''\<rparr>"
  by (simp add: keyless_client_simps Extract_def IsUnauthorized_def)

text \<open>
  Claim C4, amended. On a client whose API key is empty no operation makes a network call.
  Search with any query, Extract with a non-empty URL list, and Crawl and Map with a
  non-empty URL return an error from which \<^verbatim>\<open>errors.As\<close> recovers an APIError with status
  code 401, for which IsUnauthorized holds (the APIError arrives wrapped with the
  operation's prefix). Extract with an empty URL list and Crawl and Map with an empty URL
  return the 400 error instead.
\<close>

theorem missing_key_fails_before_network:
  assumes "apiKey c = []"
  shows "(\<exists>e a. fst (Search p c ctx q sopts sent) = Inl e \<and> errors_As e = Some a
            \<and> StatusCode a = 401 \<and> IsUnauthorized a)
         \<and> snd (Search p c ctx q sopts sent) = sent
         \<and> (urls \<noteq> [] \<longrightarrow>
              (\<exists>e a. fst (Extract p c ctx urls eopts sent) = Inl e \<and> errors_As e = Some a
                 \<and> StatusCode a = 401 \<and> IsUnauthorized a))
         \<and> snd (Extract p c ctx urls eopts sent) = sent
         \<and> (url \<noteq> [] \<longrightarrow>
              (\<exists>e a. fst (Crawl p c ctx url copts sent) = Inl e \<and> errors_As e = Some a
                 \<and> StatusCode a = 401 \<and> IsUnauthorized a))
         \<and> snd (Crawl p c ctx url copts sent) = sent
         \<and> (url \<noteq> [] \<longrightarrow>
              (\<exists>e a. fst (Map p c ctx url mopts sent) = Inl e \<and> errors_As e = Some a
                 \<and> StatusCode a = 401 \<and> IsUnauthorized a))
         \<and> snd (Map p c ctx url mopts sent) = sent
         \<and> (\<exists>a. fst (Extract p c ctx [] eopts sent) = Inl (APIErr a) \<and> StatusCode a = 400)
         \<and> (\<exists>a. fst (Crawl p c ctx [] copts sent) = Inl (APIErr a) \<and> StatusCode a = 400)
         \<and> (\<exists>a. fst (Map p c ctx [] mopts sent) = Inl (APIErr a) \<and> StatusCode a = 400)"
proof -
  have s: "\<exists>e a. fst (Search p c ctx q sopts sent) = Inl e \<and> errors_As e = Some a
            \<and> StatusCode a = 401 \<and> IsUnauthorized a"
    unfolding Search_result by (rule no_key_wrapped [OF assms])
  have e: "\<exists>e a. fst (Extract p c ctx urls eopts sent) = Inl e \<and> errors_As e = Some a
                 \<and> StatusCode a = 401 \<and> IsUnauthorized a" if "urls \<noteq> []"
    using that no_key_wrapped [OF assms] by (simp add: Extract_result)
  have cr: "\<exists>e a. fst (Crawl p c ctx url copts sent) = Inl e \<and> errors_As e = Some a
                 \<and> StatusCode a = 401 \<and> IsUnauthorized a" if "url \<noteq> []"
    using that no_key_wrapped [OF assms] by (simp add: Crawl_result)
  have m: "\<exists>e a. fst (Map p c ctx url mopts sent) = Inl e \<and> errors_As e = Some a
                 \<and> StatusCode a = 401 \<and> IsUnauthorized a" if "url \<noteq> []"
    using that no_key_wrapped [OF assms] by (simp add: Map_result)
  have n: "snd (Search p c ctx q sopts sent) = sent" "snd (Extract p c ctx urls eopts sent) = sent"
    "snd (Crawl p c ctx url copts sent) = sent" "snd (Map p c ctx url mopts sent) = sent"
    by (simp_all add: Search_sent Extract_sent Crawl_sent Map_sent wire_no_key [OF assms])
  have v: "\<exists>a. fst (Extract p c ctx [] eopts sent) = Inl (APIErr a) \<and> StatusCode a = 400"
    "\<exists>a. fst (Crawl p c ctx [] copts sent) = Inl (APIErr a) \<and> StatusCode a = 400"
    "\<exists>a. fst (Map p c ctx [] mopts sent) = Inl (APIErr a) \<and> StatusCode a = 400"
    by (simp_all add: Extract_def Crawl_def Map_def)
  show ?thesis
    using s e cr m n v by blast
qed

theorem missing_key_fails_before_network_witness:
  "apiKey keyless_client = []
   \<and> Search (test_platform 200 []) keyless_client Background ''test'' None [] =
       (Inl (Wrapped ''search failed: missing API key - provide via parameter or TAVILY_API_KEY environment variable''
          (APIErr \<lparr>StatusCode = 401,
             Message = ''missing API key - provide via parameter or TAVILY_API_KEY environment variable''\<rparr>)), [])
   \<and> (\<exists>e a. fst (Search (test_platform 200 []) keyless_client Background ''test'' None []) = Inl e
          \<and> errors_As e = Some a \<and> StatusCode a = 401 \<and> IsUnauthorized a)
   \<and> [''https://example.com''] \<noteq> []
   \<and> (\<exists>e a. fst (Extract (test_platform 200 []) keyless_client Background
                    [''https://example.com''] None []) = Inl e
          \<and> errors_As e = Some a \<and> StatusCode a = 401 \<and> IsUnauthorized a)
   \<and> ''https://example.com'' \<noteq> []
   \<and> (\<exists>e a. fst (Crawl (test_platform 200 []) keyless_client Background
                    ''https://example.com'' None []) = Inl e
          \<and> errors_As e = Some a \<and> StatusCode a = 401 \<and> IsUnauthorized a)
   \<and> (\<exists>e a. fst (Map (test_platform 200 []) keyless_client Background
                    ''https://example.com'' None []) = Inl e
          \<and> errors_As e = Some a \<and> StatusCode a = 401 \<and> IsUnauthorized a)"
proof -
  have k: "apiKey keyless_client = []" by (simp add: keyless_client_simps)
  have v: "Search (test_platform 200 []) keyless_client Background ''test'' None [] =
       (Inl (Wrapped ''search failed: missing API key - provide via parameter or TAVILY_API_KEY environment variable''
          (APIErr \<lparr>StatusCode = 401,
             Message = ''missing API key - provide via parameter or TAVILY_API_KEY environment variable''\<rparr>)), [])"
    by (simp add: Search_def doRequest_def k Errorf_w_def Let_def)
  show ?thesis
    using k v missing_key_fails_before_network
      [OF k, where p = "test_platform 200 []" and ctx = Background and q = "''test''"
         and sopts = None and sent = "[]" and urls = "[''https://example.com'']"
         and eopts = None and url = "''https://example.com''" and copts = None and mopts = None]
    by simp
qed

section \<open>Error responses\<close>



section \<open>Error propagation\<close>

text \<open>
  Claim C6. \<^verbatim>\<open>fmt.Errorf\<close> with \<^verbatim>\<open>%w\<close> keeps the wrapped error reachable: \<^verbatim>\<open>errors.As\<close>
  finds the same APIError (or none) in the wrapped error as in the original, and
  \<^verbatim>\<open>errors.Is\<close> finds the original. Every error Search, Extract, Crawl, Map and
  GetSearchContext return after their validation is the error of the call they delegate to
  under the operation's prefix, so an APIError, a transport failure or a decoding failure
  produced inside the call can still be told apart by the caller; the two validation errors
  are APIErrors themselves.
\<close>

theorem wrapped_errors_keep_their_kind:
  "errors_As (Errorf_w prefix err) = errors_As err
   \<and> errors_Is (Errorf_w prefix err) err
   \<and> (fst (Search p c ctx q sopts sent) = Inl e1 \<longrightarrow>
        (\<exists>e0. fst (doRequest p (Unmarshal_SearchResponse p) c ctx ''/search''
                 (Some (PSearch (SearchRequest_of q
                    (case sopts of None \<Rightarrow> SearchOptions_zero | Some v \<Rightarrow> v))))
                 (Some SearchResponse_zero) sent) = Inl e0
           \<and> e1 = Errorf_w ''search failed: '' e0
           \<and> errors_As e1 = errors_As e0 \<and> errors_Is e1 e0))
   \<and> (urls \<noteq> [] \<and> fst (Extract p c ctx urls eopts sent) = Inl e2 \<longrightarrow>
        (\<exists>e0. fst (doRequest p (Unmarshal_ExtractResponse p) c ctx ''/extract''
                 (Some (PExtract (ExtractRequest_of urls
                    (case eopts of None \<Rightarrow> ExtractOptions_zero | Some v \<Rightarrow> v))))
                 (Some ExtractResponse_zero) sent) = Inl e0
           \<and> e2 = Errorf_w ''extract failed: '' e0
           \<and> errors_As e2 = errors_As e0 \<and> errors_Is e2 e0))
   \<and> (url \<noteq> [] \<and> fst (Crawl p c ctx url copts sent) = Inl e3 \<longrightarrow>
        (\<exists>e0. fst (doRequest p (Unmarshal_CrawlResponse p) c ctx ''/crawl''
                 (Some (PCrawl (CrawlRequest_of url
                    (case copts of None \<Rightarrow> CrawlOptions_zero | Some v \<Rightarrow> v))))
                 (Some CrawlResponse_zero) sent) = Inl e0
           \<and> e3 = Errorf_w ''crawl failed: '' e0
           \<and> errors_As e3 = errors_As e0 \<and> errors_Is e3 e0))
   \<and> (url \<noteq> [] \<and> fst (Map p c ctx url mopts sent) = Inl e4 \<longrightarrow>
        (\<exists>e0. fst (doRequest p (Unmarshal_MapResponse p) c ctx ''/map''
                 (Some (PMap (MapRequest_of url
                    (case mopts of None \<Rightarrow> MapOptions_zero | Some v \<Rightarrow> v))))
                 (Some MapResponse_zero) sent) = Inl e0
           \<and> e4 = Errorf_w ''map failed: '' e0
           \<and> errors_As e4 = errors_As e0 \<and> errors_Is e4 e0))
   \<and> (fst (GetSearchContext p c ctx q maxTokens sent) = Inl e5 \<longrightarrow>
        (\<exists>e0. fst (Search p c ctx q
                 (Some (SearchOptions_zero\<lparr>so_SearchDepth := SearchDepthAdvanced,
                    so_MaxResults := 5, so_IncludeRawContent := AnyString FormatText,
                    so_MaxTokens := maxTokens\<rparr>)) sent) = Inl e0
           \<and> e5 = Errorf_w ''search failed: '' e0
           \<and> errors_As e5 = errors_As e0 \<and> errors_Is e5 e0))
   \<and> errors_As (APIErr \<lparr>StatusCode = 400, Message = ''at least one URL is required''\<rparr>) =
       Some \<lparr>StatusCode = 400, Message = ''at least one URL is required''\<rparr>
   \<and> errors_As (APIErr \<lparr>StatusCode = 400, Message = ''URL is required''\<rparr>) =
       Some \<lparr>StatusCode = 400, Message = ''URL is required''\<rparr>"
proof -
  have s: "fst (Search p c ctx q sopts sent) = Inl e1 \<longrightarrow>
        (\<exists>e0. fst (doRequest p (Unmarshal_SearchResponse p) c ctx ''/search''
                 (Some (PSearch (SearchRequest_of q
                    (case sopts of None \<Rightarrow> SearchOptions_zero | Some v \<Rightarrow> v))))
                 (Some SearchResponse_zero) sent) = Inl e0
           \<and> e1 = Errorf_w ''search failed: '' e0
           \<and> errors_As e1 = errors_As e0 \<and> errors_Is e1 e0)"
    unfolding Search_result using wrap_keeps_kind by blast
  have e: "urls \<noteq> [] \<and> fst (Extract p c ctx urls eopts sent) = Inl e2 \<longrightarrow>
        (\<exists>e0. fst (doRequest p (Unmarshal_ExtractResponse p) c ctx ''/extract''
                 (Some (PExtract (ExtractRequest_of urls
                    (case eopts of None \<Rightarrow> ExtractOptions_zero | Some v \<Rightarrow> v))))
                 (Some ExtractResponse_zero) sent) = Inl e0
           \<and> e2 = Errorf_w ''extract failed: '' e0
           \<and> errors_As e2 = errors_As e0 \<and> errors_Is e2 e0)"
    unfolding Extract_result using wrap_keeps_kind by (simp, blast)
  have cr: "url \<noteq> [] \<and> fst (Crawl p c ctx url copts sent) = Inl e3 \<longrightarrow>
        (\<exists>e0. fst (doRequest p (Unmarshal_CrawlResponse p) c ctx ''/crawl''
                 (Some (PCrawl (CrawlRequest_of url
                    (case copts of None \<Rightarrow> CrawlOptions_zero | Some v \<Rightarrow> v))))
                 (Some CrawlResponse_zero) sent) = Inl e0
           \<and> e3 = Errorf_w ''crawl failed: '' e0
           \<and> errors_As e3 = errors_As e0 \<and> errors_Is e3 e0)"
    unfolding Crawl_result using wrap_keeps_kind by (simp, blast)
  have m: "url \<noteq> [] \<and> fst (Map p c ctx url mopts sent) = Inl e4 \<longrightarrow>
        (\<exists>e0. fst (doRequest p (Unmarshal_MapResponse p) c ctx ''/map''
                 (Some (PMap (MapRequest_of url
                    (case mopts of None \<Rightarrow> MapOptions_zero | Some v \<Rightarrow> v))))
                 (Some MapResponse_zero) sent) = Inl e0
           \<and> e4 = Errorf_w ''map failed: '' e0
           \<and> errors_As e4 = errors_As e0 \<and> errors_Is e4 e0)"
    unfolding Map_result using wrap_keeps_kind by (simp, blast)
  have gr: "fst (GetSearchContext p c ctx q maxTokens sent) =
      (case fst (Search p c ctx q
                 (Some (SearchOptions_zero\<lparr>so_SearchDepth := SearchDepthAdvanced,
                    so_MaxResults := 5, so_IncludeRawContent := AnyString FormatText,
                    so_MaxTokens := maxTokens\<rparr>)) sent) of
         Inl err \<Rightarrow> Inl (Errorf_w ''search failed: '' err)
       | Inr result \<Rightarrow> Inr (appendSources 0 (sp_Results result)
                      (''Search query: '' @ q @ [CHR 0x0A, CHR 0x0A])))"
    by (simp add: GetSearchContext_def Let_def fst_wrap)
  have g: "fst (GetSearchContext p c ctx q maxTokens sent) = Inl e5 \<longrightarrow>
        (\<exists>e0. fst (Search p c ctx q
                 (Some (SearchOptions_zero\<lparr>so_SearchDepth := SearchDepthAdvanced,
                    so_MaxResults := 5, so_IncludeRawContent := AnyString FormatText,
                    so_MaxTokens := maxTokens\<rparr>)) sent) = Inl e0
           \<and> e5 = Errorf_w ''search failed: '' e0
           \<and> errors_As e5 = errors_As e0 \<and> errors_Is e5 e0)"
    unfolding gr
    using wrap_keeps_kind
      [where x = "fst (Search p c ctx q
                 (Some (SearchOptions_zero\<lparr>so_SearchDepth := SearchDepthAdvanced,
                    so_MaxResults := 5, so_IncludeRawContent := AnyString FormatText,
                    so_MaxTokens := maxTokens\<rparr>)) sent)" and prefix = "''search failed: ''"
          and g = "\<lambda>result. appendSources 0 (sp_Results result)
                      (''Search query: '' @ q @ [CHR 0x0A, CHR 0x0A])" and e = e5]
    by blast
  show ?thesis
    using s e cr m g by (simp add: errors_As_Errorf_w errors_Is_Errorf_w)
qed

theorem wrapped_errors_keep_their_kind_witness:
  "fst (Search unauthorized_platform test_client Background ''test'' None []) =
     Inl (Wrapped ''search failed: Invalid API key provided''
            (APIErr \<lparr>StatusCode = 401, Message = ''Invalid API key provided''\<rparr>))
   \<and> errors_As (Wrapped ''search failed: Invalid API key provided''
            (APIErr \<lparr>StatusCode = 401, Message = ''Invalid API key provided''\<rparr>)) =
       Some \<lparr>StatusCode = 401, Message = ''Invalid API key provided''\<rparr>
   \<and> fst (Extract unauthorized_platform test_client Background [''https://example.com'']
            None []) =
     Inl (Wrapped ''extract failed: Invalid API key provided''
            (APIErr \<lparr>StatusCode = 401, Message = ''Invalid API key provided''\<rparr>))
   \<and> fst (Crawl unauthorized_platform test_client Background ''https://example.com'' None []) =
     Inl (Wrapped ''crawl failed: Invalid API key provided''
            (APIErr \<lparr>StatusCode = 401, Message = ''Invalid API key provided''\<rparr>))
   \<and> fst (Map unauthorized_platform test_client Background ''https://example.com'' None []) =
     Inl (Wrapped ''map failed: Invalid API key provided''
            (APIErr \<lparr>StatusCode = 401, Message = ''Invalid API key provided''\<rparr>))
   \<and> fst (GetSearchContext unauthorized_platform test_client Background ''test'' 1000 []) =
     Inl (Wrapped ''search failed: search failed: Invalid API key provided''
           (Wrapped ''search failed: Invalid API key provided''
             (APIErr \<lparr>StatusCode = 401, Message = ''Invalid API key provided''\<rparr>)))
   \<and> (\<exists>e0. fst (doRequest unauthorized_platform (Unmarshal_SearchResponse unauthorized_platform)
                 test_client Background ''/search''
                 (Some (PSearch (SearchRequest_of ''test'' SearchOptions_zero)))
                 (Some SearchResponse_zero) []) = Inl e0
           \<and> errors_As (Wrapped ''search failed: Invalid API key provided''
                (APIErr \<lparr>StatusCode = 401, Message = ''Invalid API key provided''\<rparr>)) =
               errors_As e0)
   \<and> (\<exists>e0. fst (doRequest unauthorized_platform (Unmarshal_ExtractResponse unauthorized_platform)
                 test_client Background ''/extract''
                 (Some (PExtract (ExtractRequest_of [''https://example.com'']
                    ExtractOptions_zero)))
                 (Some ExtractResponse_zero) []) = Inl e0
           \<and> errors_As (Wrapped ''extract failed: Invalid API key provided''
                (APIErr \<lparr>StatusCode = 401, Message = ''Invalid API key provided''\<rparr>)) =
               errors_As e0)
   \<and> (\<exists>e0. fst (doRequest unauthorized_platform (Unmarshal_CrawlResponse unauthorized_platform)
                 test_client Background ''/crawl''
                 (Some (PCrawl (CrawlRequest_of ''https://example.com'' CrawlOptions_zero)))
                 (Some CrawlResponse_zero) []) = Inl e0
           \<and> errors_As (Wrapped ''crawl failed: Invalid API key provided''
                (APIErr \<lparr>StatusCode = 401, Message = ''Invalid API key provided''\<rparr>)) =
               errors_As e0)
   \<and> (\<exists>e0. fst (doRequest unauthorized_platform (Unmarshal_MapResponse unauthorized_platform)
                 test_client Background ''/map''
                 (Some (PMap (MapRequest_of ''https://example.com'' MapOptions_zero)))
                 (Some MapResponse_zero) []) = Inl e0
           \<and> errors_As (Wrapped ''map failed: Invalid API key provided''
                (APIErr \<lparr>StatusCode = 401, Message = ''Invalid API key provided''\<rparr>)) =
               errors_As e0)
   \<and> errors_As (Wrapped ''search failed: search failed: Invalid API key provided''
           (Wrapped ''search failed: Invalid API key provided''
             (APIErr \<lparr>StatusCode = 401, Message = ''Invalid API key provided''\<rparr>))) =
       Some \<lparr>StatusCode = 401, Message = ''Invalid API key provided''\<rparr>"
proof -
  note r = unauthorized_results [unfolded Errorf_w_def, simplified]
    unauthorized_context [unfolded Errorf_w_def, simplified]
  note T = wrapped_errors_keep_their_kind
    [where p = unauthorized_platform and c = test_client and ctx = Background
       and q = "''test''" and sopts = None and sent = "[]"
       and urls = "[''https://example.com'']" and eopts = None
       and url = "''https://example.com''" and copts = None and mopts = None
       and maxTokens = 1000
       and ?e1.0 = "Wrapped ''search failed: Invalid API key provided''
            (APIErr \<lparr>StatusCode = 401, Message = ''Invalid API key provided''\<rparr>)"
       and ?e2.0 = "Wrapped ''extract failed: Invalid API key provided''
            (APIErr \<lparr>StatusCode = 401, Message = ''Invalid API key provided''\<rparr>)"
       and ?e3.0 = "Wrapped ''crawl failed: Invalid API key provided''
            (APIErr \<lparr>StatusCode = 401, Message = ''Invalid API key provided''\<rparr>)"
       and ?e4.0 = "Wrapped ''map failed: Invalid API key provided''
            (APIErr \<lparr>StatusCode = 401, Message = ''Invalid API key provided''\<rparr>)"
       and ?e5.0 = "Wrapped ''search failed: search failed: Invalid API key provided''
           (Wrapped ''search failed: Invalid API key provided''
             (APIErr \<lparr>StatusCode = 401, Message = ''Invalid API key provided''\<rparr>))"]
  show ?thesis
    using T r by (simp, blast)
qed

section \<open>Optional booleans in the serialized payload\<close>



section \<open>Negative integers\<close>

text \<open>
  Claim C10. defaultInt substitutes the default only for the value 0: a negative value is
  returned as it is. So on a call that passes the target and key checks and whose request
  can be built, Crawl, Map, Extract and Search send their request, no validation error is
  raised, and every negative max\_depth, max\_breadth, limit, max\_results or timeout of the
  caller is in the JSON body unchanged.
\<close>

theorem negative_integers_pass_through:
  "(v < 0 \<longrightarrow> defaultInt v d = v)
   \<and> (defaultInt v d \<noteq> v \<longrightarrow> v = 0)
   \<and> (url \<noteq> [] \<and> apiKey c \<noteq> []
        \<and> NewRequest_error p ctx ''POST'' (baseURL c @ ''/crawl'') = None \<longrightarrow>
        (\<exists>rq body. snd (Crawl p c ctx url (Some copts) sent) = sent @ [rq]
           \<and> rq_body rq = Some body
           \<and> (co_MaxDepth copts < 0 \<longrightarrow>
                member body ''max_depth'' = Some (JNumber (co_MaxDepth copts)))
           \<and> (co_MaxBreadth copts < 0 \<longrightarrow>
                member body ''max_breadth'' = Some (JNumber (co_MaxBreadth copts)))
           \<and> (co_Limit copts < 0 \<longrightarrow> member body ''limit'' = Some (JNumber (co_Limit copts)))
           \<and> (co_Timeout copts < 0 \<longrightarrow>
                member body ''timeout'' = Some (JNumber (co_Timeout copts)))))
   \<and> (url \<noteq> [] \<and> apiKey c \<noteq> []
        \<and> NewRequest_error p ctx ''POST'' (baseURL c @ ''/map'') = None \<longrightarrow>
        (\<exists>rq body. snd (Map p c ctx url (Some mopts) sent) = sent @ [rq]
           \<and> rq_body rq = Some body
           \<and> (mo_MaxDepth mopts < 0 \<longrightarrow>
                member body ''max_depth'' = Some (JNumber (mo_MaxDepth mopts)))
           \<and> (mo_MaxBreadth mopts < 0 \<longrightarrow>
                member body ''max_breadth'' = Some (JNumber (mo_MaxBreadth mopts)))
           \<and> (mo_Limit mopts < 0 \<longrightarrow> member body ''limit'' = Some (JNumber (mo_Limit mopts)))
           \<and> (mo_Timeout mopts < 0 \<longrightarrow>
                member body ''timeout'' = Some (JNumber (mo_Timeout mopts)))))
   \<and> (urls \<noteq> [] \<and> apiKey c \<noteq> []
        \<and> NewRequest_error p ctx ''POST'' (baseURL c @ ''/extract'') = None \<longrightarrow>
        (\<exists>rq body. snd (Extract p c ctx urls (Some eopts) sent) = sent @ [rq]
           \<and> rq_body rq = Some body
           \<and> (eo_Timeout eopts < 0 \<longrightarrow>
                member body ''timeout'' = Some (JNumber (eo_Timeout eopts)))))
   \<and> (apiKey c \<noteq> [] \<and> NewRequest_error p ctx ''POST'' (baseURL c @ ''/search'') = None
        \<and> so_IncludeAnswer sopts \<noteq> AnyUnsupported
        \<and> so_IncludeRawContent sopts \<noteq> AnyUnsupported \<longrightarrow>
        (\<exists>rq body. snd (Search p c ctx q (Some sopts) sent) = sent @ [rq]
           \<and> rq_body rq = Some body
           \<and> (so_MaxResults sopts < 0 \<longrightarrow>
                member body ''max_results'' = Some (JNumber (so_MaxResults sopts)))
           \<and> (so_Timeout sopts < 0 \<longrightarrow>
                member body ''timeout'' = Some (JNumber (so_Timeout sopts)))))"
proof -
  have cr: "\<exists>rq body. snd (Crawl p c ctx url (Some copts) sent) = sent @ [rq]
           \<and> rq_body rq = Some body
           \<and> (co_MaxDepth copts < 0 \<longrightarrow>
                member body ''max_depth'' = Some (JNumber (co_MaxDepth copts)))
           \<and> (co_MaxBreadth copts < 0 \<longrightarrow>
                member body ''max_breadth'' = Some (JNumber (co_MaxBreadth copts)))
           \<and> (co_Limit copts < 0 \<longrightarrow> member body ''limit'' = Some (JNumber (co_Limit copts)))
           \<and> (co_Timeout copts < 0 \<longrightarrow>
                member body ''timeout'' = Some (JNumber (co_Timeout copts)))"
    if h: "url \<noteq> []" "apiKey c \<noteq> []"
       "NewRequest_error p ctx ''POST'' (baseURL c @ ''/crawl'') = None"
  proof -
    obtain body where m: "marshal_CrawlRequest (CrawlRequest_of url copts) = Inr body"
      by (simp add: marshal_CrawlRequest_def)
    then have m': "Marshal (PCrawl (CrawlRequest_of url copts)) = Inr body" by simp
    have "snd (Crawl p c ctx url (Some copts) sent) =
        sent @ [\<lparr>rq_ctx = ctx, rq_method = ''POST'', rq_url = baseURL c @ ''/crawl'',
              rq_header = headers c, rq_body = Some body\<rparr>]"
      using h by (simp add: Crawl_sent wire_sends [OF h(2) m' h(3)])
    then show ?thesis
      using member_CrawlRequest(2,3,4,7) [OF m]
      by (simp add: CrawlRequest_of_def defaultInt_def)
  qed
  have mp: "\<exists>rq body. snd (Map p c ctx url (Some mopts) sent) = sent @ [rq]
           \<and> rq_body rq = Some body
           \<and> (mo_MaxDepth mopts < 0 \<longrightarrow>
                member body ''max_depth'' = Some (JNumber (mo_MaxDepth mopts)))
           \<and> (mo_MaxBreadth mopts < 0 \<longrightarrow>
                member body ''max_breadth'' = Some (JNumber (mo_MaxBreadth mopts)))
           \<and> (mo_Limit mopts < 0 \<longrightarrow> member body ''limit'' = Some (JNumber (mo_Limit mopts)))
           \<and> (mo_Timeout mopts < 0 \<longrightarrow>
                member body ''timeout'' = Some (JNumber (mo_Timeout mopts)))"
    if h: "url \<noteq> []" "apiKey c \<noteq> []"
       "NewRequest_error p ctx ''POST'' (baseURL c @ ''/map'') = None"
  proof -
    obtain body where m: "marshal_MapRequest (MapRequest_of url mopts) = Inr body"
      by (simp add: marshal_MapRequest_def)
    then have m': "Marshal (PMap (MapRequest_of url mopts)) = Inr body" by simp
    have "snd (Map p c ctx url (Some mopts) sent) =
        sent @ [\<lparr>rq_ctx = ctx, rq_method = ''POST'', rq_url = baseURL c @ ''/map'',
              rq_header = headers c, rq_body = Some body\<rparr>]"
      using h by (simp add: Map_sent wire_sends [OF h(2) m' h(3)])
    then show ?thesis
      using member_MapRequest(2,3,4,6) [OF m]
      by (simp add: MapRequest_of_def defaultInt_def)
  qed
  have ex: "\<exists>rq body. snd (Extract p c ctx urls (Some eopts) sent) = sent @ [rq]
           \<and> rq_body rq = Some body
           \<and> (eo_Timeout eopts < 0 \<longrightarrow>
                member body ''timeout'' = Some (JNumber (eo_Timeout eopts)))"
    if h: "urls \<noteq> []" "apiKey c \<noteq> []"
       "NewRequest_error p ctx ''POST'' (baseURL c @ ''/extract'') = None"
  proof -
    obtain body where m: "marshal_ExtractRequest (ExtractRequest_of urls eopts) = Inr body"
      by (simp add: marshal_ExtractRequest_def)
    then have m': "Marshal (PExtract (ExtractRequest_of urls eopts)) = Inr body" by simp
    have "snd (Extract p c ctx urls (Some eopts) sent) =
        sent @ [\<lparr>rq_ctx = ctx, rq_method = ''POST'', rq_url = baseURL c @ ''/extract'',
              rq_header = headers c, rq_body = Some body\<rparr>]"
      using h by (simp add: Extract_sent wire_sends [OF h(2) m' h(3)])
    then show ?thesis
      using member_ExtractRequest(5) [OF m]
      by (simp add: ExtractRequest_of_def defaultInt_def)
  qed
  have se: "\<exists>rq body. snd (Search p c ctx q (Some sopts) sent) = sent @ [rq]
           \<and> rq_body rq = Some body
           \<and> (so_MaxResults sopts < 0 \<longrightarrow>
                member body ''max_results'' = Some (JNumber (so_MaxResults sopts)))
           \<and> (so_Timeout sopts < 0 \<longrightarrow>
                member body ''timeout'' = Some (JNumber (so_Timeout sopts)))"
    if h: "apiKey c \<noteq> []" "NewRequest_error p ctx ''POST'' (baseURL c @ ''/search'') = None"
       "so_IncludeAnswer sopts \<noteq> AnyUnsupported" "so_IncludeRawContent sopts \<noteq> AnyUnsupported"
  proof -
    obtain body where m: "marshal_SearchRequest (SearchRequest_of q sopts) = Inr body"
      using marshal_SearchRequest_ok [of "SearchRequest_of q sopts"] h(3,4)
      by (auto simp: SearchRequest_of_def)
    then have m': "Marshal (PSearch (SearchRequest_of q sopts)) = Inr body" by simp
    have "snd (Search p c ctx q (Some sopts) sent) =
        sent @ [\<lparr>rq_ctx = ctx, rq_method = ''POST'', rq_url = baseURL c @ ''/search'',
              rq_header = headers c, rq_body = Some body\<rparr>]"
      by (simp add: Search_sent wire_sends [OF h(1) m' h(2)])
    then show ?thesis
      using member_SearchRequest(4,5) [OF m]
      by (simp add: SearchRequest_of_def defaultInt_def)
  qed
  have d: "v < 0 \<longrightarrow> defaultInt v d = v" "defaultInt v d \<noteq> v \<longrightarrow> v = 0"
    by (simp_all add: defaultInt_def)
  show ?thesis
    using d cr mp ex se by blast
qed

theorem negative_integers_pass_through_witness:
  "defaultInt (- 1) 5 = - 1
   \<and> defaultInt 0 5 \<noteq> 0
   \<and> (\<exists>rq body. snd (Crawl (test_platform 200 []) test_client Background ''https://example.com''
            (Some (CrawlOptions_zero\<lparr>co_MaxDepth := - 3, co_MaxBreadth := - 1,
                     co_Limit := - 1, co_Timeout := - 5\<rparr>)) []) = [] @ [rq]
          \<and> rq_body rq = Some body
          \<and> member body ''max_depth'' = Some (JNumber (- 3))
          \<and> member body ''max_breadth'' = Some (JNumber (- 1))
          \<and> member body ''limit'' = Some (JNumber (- 1))
          \<and> member body ''timeout'' = Some (JNumber (- 5)))
   \<and> (\<exists>rq body. snd (Map (test_platform 200 []) test_client Background ''https://example.com''
            (Some (MapOptions_zero\<lparr>mo_MaxDepth := - 3, mo_MaxBreadth := - 1,
                     mo_Limit := - 1, mo_Timeout := - 5\<rparr>)) []) = [] @ [rq]
          \<and> rq_body rq = Some body
          \<and> member body ''max_depth'' = Some (JNumber (- 3))
          \<and> member body ''max_breadth'' = Some (JNumber (- 1))
          \<and> member body ''limit'' = Some (JNumber (- 1))
          \<and> member body ''timeout'' = Some (JNumber (- 5)))
   \<and> (\<exists>rq body. snd (Extract (test_platform 200 []) test_client Background
            [''https://example.com'']
            (Some (ExtractOptions_zero\<lparr>eo_Timeout := - 5\<rparr>)) []) = [] @ [rq]
          \<and> rq_body rq = Some body
          \<and> member body ''timeout'' = Some (JNumber (- 5)))
   \<and> (\<exists>rq body. snd (Search (test_platform 200 []) test_client Background ''test''
            (Some (SearchOptions_zero\<lparr>so_MaxResults := - 1, so_Timeout := - 5\<rparr>)) []) =
              [] @ [rq]
          \<and> rq_body rq = Some body
          \<and> member body ''max_results'' = Some (JNumber (- 1))
          \<and> member body ''timeout'' = Some (JNumber (- 5)))"
proof -
  let ?co = "CrawlOptions_zero\<lparr>co_MaxDepth := - 3, co_MaxBreadth := - 1,
                     co_Limit := - 1, co_Timeout := - 5\<rparr>"
  let ?mo = "MapOptions_zero\<lparr>mo_MaxDepth := - 3, mo_MaxBreadth := - 1,
                     mo_Limit := - 1, mo_Timeout := - 5\<rparr>"
  let ?eo = "ExtractOptions_zero\<lparr>eo_Timeout := - 5\<rparr>"
  let ?so = "SearchOptions_zero\<lparr>so_MaxResults := - 1, so_Timeout := - 5\<rparr>"
  have ov: "co_MaxDepth ?co = - 3" "co_MaxBreadth ?co = - 1" "co_Limit ?co = - 1"
    "co_Timeout ?co = - 5" "mo_MaxDepth ?mo = - 3" "mo_MaxBreadth ?mo = - 1"
    "mo_Limit ?mo = - 1" "mo_Timeout ?mo = - 5" "eo_Timeout ?eo = - 5"
    "so_MaxResults ?so = - 1" "so_Timeout ?so = - 5"
    "so_IncludeAnswer ?so = AnyNil" "so_IncludeRawContent ?so = AnyNil"
    by (simp_all add: SearchOptions_zero_def)
  note T = negative_integers_pass_through
    [where p = "test_platform 200 []" and c = test_client and ctx = Background
       and q = "''test''" and sopts = ?so and sent = "[]"
       and urls = "[''https://example.com'']" and eopts = ?eo
       and url = "''https://example.com''" and copts = ?co and mopts = ?mo
       and v = "- 1" and d = 5]
  note T0 = negative_integers_pass_through
    [where p = "test_platform 200 []" and c = test_client and ctx = Background
       and q = "''test''" and sopts = ?so and sent = "[]"
       and urls = "[''https://example.com'']" and eopts = ?eo
       and url = "''https://example.com''" and copts = ?co and mopts = ?mo
       and v = 0 and d = 5]
  have z: "defaultInt 0 5 \<noteq> 0" by (simp add: defaultInt_def)
  show ?thesis
    using T T0 z by (simp add: test_client_simps test_platform_simps ov)
qed

section \<open>Client construction\<close>

text \<open>
  Claim C9, as stated, fails on the timeout: New uses the timeout option only for the HTTP
  client it creates itself. With an injected HTTP client a zero timeout option leaves that
  client, and its own timeout, as it is.
\<close>

theorem New_timeout_counterexample:
  "opt_Timeout \<lparr>opt_BaseURL = [],
       opt_HTTPClient = Some \<lparr>hc_Timeout = 5 * Second, hc_Transport = None\<rparr>,
       opt_Timeout = 0\<rparr> = 0
   \<and> hc_Timeout (httpClient (New (test_platform 200 []) ''tvly-test-key''
        (Some \<lparr>opt_BaseURL = [],
           opt_HTTPClient = Some \<lparr>hc_Timeout = 5 * Second, hc_Transport = None\<rparr>,
           opt_Timeout = 0\<rparr>))) = 5 * Second
   \<and> hc_Timeout (httpClient (New (test_platform 200 []) ''tvly-test-key''
        (Some \<lparr>opt_BaseURL = [],
           opt_HTTPClient = Some \<lparr>hc_Timeout = 5 * Second, hc_Transport = None\<rparr>,
           opt_Timeout = 0\<rparr>))) \<noteq> 60 * Second"
  by (simp add: New_def Let_def Second_def)

text \<open>
  Claim C9, amended. An empty base URL option (or a nil options pointer) yields the base
  URL "https://api.tavily.com"; a supplied base URL that ends with a slash loses that one
  slash and any other supplied base URL is kept. When no HTTP client is supplied, New
  creates one whose timeout is 60 seconds for a zero timeout option and the option's value
  otherwise; a supplied HTTP client is kept unchanged. The API key is the argument, or the
  value of TAVILY\_API\_KEY when the argument is empty, and the headers are exactly
  Content-Type "application/json", Authorization "Bearer " followed by that key, and
  X-Client-Source "go-tavily".
\<close>

theorem New_configuration:
  "baseURL (New p key None) = ''https://api.tavily.com''
   \<and> (opt_BaseURL opts = [] \<longrightarrow> baseURL (New p key (Some opts)) = ''https://api.tavily.com'')
   \<and> (opt_BaseURL opts = b @ ''/'' \<longrightarrow> baseURL (New p key (Some opts)) = b)
   \<and> (opt_BaseURL opts \<noteq> [] \<and> last (opt_BaseURL opts) \<noteq> CHR ''/'' \<longrightarrow>
        baseURL (New p key (Some opts)) = opt_BaseURL opts)
   \<and> httpClient (New p key None) = \<lparr>hc_Timeout = 60 * Second, hc_Transport = None\<rparr>
   \<and> (opt_HTTPClient opts = None \<and> opt_Timeout opts = 0 \<longrightarrow>
        httpClient (New p key (Some opts)) = \<lparr>hc_Timeout = 60 * Second, hc_Transport = None\<rparr>)
   \<and> (opt_HTTPClient opts = None \<and> opt_Timeout opts \<noteq> 0 \<longrightarrow>
        httpClient (New p key (Some opts)) =
          \<lparr>hc_Timeout = opt_Timeout opts, hc_Transport = None\<rparr>)
   \<and> (opt_HTTPClient opts = Some hc \<longrightarrow> httpClient (New p key (Some opts)) = hc)
   \<and> apiKey (New p key opts0) = (if key = [] then Getenv p ''TAVILY_API_KEY'' else key)
   \<and> headers (New p key opts0) =
       [''Content-Type'' \<mapsto> ''application/json'',
        ''Authorization'' \<mapsto> ''Bearer '' @ apiKey (New p key opts0),
        ''X-Client-Source'' \<mapsto> ''go-tavily'']
   \<and> dom (headers (New p key opts0)) = {''Content-Type'', ''Authorization'', ''X-Client-Source''}"
proof -
  have u: "baseURL (New p key None) = ''https://api.tavily.com''"
    "opt_BaseURL opts = [] \<longrightarrow> baseURL (New p key (Some opts)) = ''https://api.tavily.com''"
    by (simp_all add: New_def Let_def Options_zero_def DefaultBaseURL_def TrimSuffix_def
          HasSuffix_def)
  have s: "opt_BaseURL opts = b @ ''/'' \<longrightarrow> baseURL (New p key (Some opts)) = b"
    "opt_BaseURL opts \<noteq> [] \<and> last (opt_BaseURL opts) \<noteq> CHR ''/'' \<longrightarrow>
        baseURL (New p key (Some opts)) = opt_BaseURL opts"
    using TrimSuffix_slash(1) [of b]
    by (auto simp: New_def Let_def TrimSuffix_slash(2))
  have t: "httpClient (New p key None) = \<lparr>hc_Timeout = 60 * Second, hc_Transport = None\<rparr>"
    "opt_HTTPClient opts = None \<and> opt_Timeout opts = 0 \<longrightarrow>
        httpClient (New p key (Some opts)) = \<lparr>hc_Timeout = 60 * Second, hc_Transport = None\<rparr>"
    "opt_HTTPClient opts = None \<and> opt_Timeout opts \<noteq> 0 \<longrightarrow>
        httpClient (New p key (Some opts)) =
          \<lparr>hc_Timeout = opt_Timeout opts, hc_Transport = None\<rparr>"
    "opt_HTTPClient opts = Some hc \<longrightarrow> httpClient (New p key (Some opts)) = hc"
    by (simp_all add: New_def Let_def Options_zero_def DefaultTimeout_def)
  have k: "apiKey (New p key opts0) = (if key = [] then Getenv p ''TAVILY_API_KEY'' else key)"
    by (simp add: New_def Let_def)
  have h: "headers (New p key opts0) =
       [''Content-Type'' \<mapsto> ''application/json'',
        ''Authorization'' \<mapsto> ''Bearer '' @ apiKey (New p key opts0),
        ''X-Client-Source'' \<mapsto> ''go-tavily'']"
    by (simp add: New_def Let_def ClientSource_def)
  have d: "dom (headers (New p key opts0)) =
      {''Content-Type'', ''Authorization'', ''X-Client-Source''}"
    unfolding h by auto
  show ?thesis
    using u s t k h d by blast
qed

theorem New_configuration_witness:
  "baseURL (New (test_platform 200 []) ''tvly-test-key''
      (Some \<lparr>opt_BaseURL = [], opt_HTTPClient = None, opt_Timeout = 0\<rparr>)) =
     ''https://api.tavily.com''
   \<and> httpClient (New (test_platform 200 []) ''tvly-test-key''
      (Some \<lparr>opt_BaseURL = [], opt_HTTPClient = None, opt_Timeout = 0\<rparr>)) =
     \<lparr>hc_Timeout = 60 * Second, hc_Transport = None\<rparr>
   \<and> baseURL (New (test_platform 200 []) ''tvly-test-key''
      (Some \<lparr>opt_BaseURL = ''https://custom.api.com/'', opt_HTTPClient = None,
         opt_Timeout = 30 * Second\<rparr>)) = ''https://custom.api.com''
   \<and> httpClient (New (test_platform 200 []) ''tvly-test-key''
      (Some \<lparr>opt_BaseURL = ''https://custom.api.com/'', opt_HTTPClient = None,
         opt_Timeout = 30 * Second\<rparr>)) = \<lparr>hc_Timeout = 30 * Second, hc_Transport = None\<rparr>
   \<and> baseURL (New (test_platform 200 []) ''tvly-test-key''
      (Some \<lparr>opt_BaseURL = ''https://custom.api.com'',
         opt_HTTPClient = Some \<lparr>hc_Timeout = 5 * Second, hc_Transport = None\<rparr>,
         opt_Timeout = 0\<rparr>)) = ''https://custom.api.com''
   \<and> httpClient (New (test_platform 200 []) ''tvly-test-key''
      (Some \<lparr>opt_BaseURL = ''https://custom.api.com'',
         opt_HTTPClient = Some \<lparr>hc_Timeout = 5 * Second, hc_Transport = None\<rparr>,
         opt_Timeout = 0\<rparr>)) = \<lparr>hc_Timeout = 5 * Second, hc_Transport = None\<rparr>"
  using New_configuration
      [where p = "test_platform 200 []" and key = "''tvly-test-key''"
         and opts = "\<lparr>opt_BaseURL = [], opt_HTTPClient = None, opt_Timeout = 0\<rparr>"]
    New_configuration
      [where p = "test_platform 200 []" and key = "''tvly-test-key''"
         and opts = "\<lparr>opt_BaseURL = ''https://custom.api.com/'', opt_HTTPClient = None,
            opt_Timeout = 30 * Second\<rparr>" and b = "''https://custom.api.com''"]
    New_configuration
      [where p = "test_platform 200 []" and key = "''tvly-test-key''"
         and opts = "\<lparr>opt_BaseURL = ''https://custom.api.com'',
            opt_HTTPClient = Some \<lparr>hc_Timeout = 5 * Second, hc_Transport = None\<rparr>,
            opt_Timeout = 0\<rparr>"
         and hc = "\<lparr>hc_Timeout = 5 * Second, hc_Transport = None\<rparr>"]
  by (simp add: Second_def)

section \<open>Convenience presets\<close>

text \<open>
  Claim C8, as stated, fails for GetSearchContext: it is not the core call with fixed
  options. It wraps the error of Search a second time, so against a server that answers
  401 its error is not the error Search returns with the same options, and on success it
  returns a string it formats itself.
\<close>

theorem GetSearchContext_counterexample:
  "fst (GetSearchContext unauthorized_platform test_client Background ''test'' 1000 []) =
     Inl (Wrapped ''search failed: search failed: Invalid API key provided''
           (Wrapped ''search failed: Invalid API key provided''
             (APIErr \<lparr>StatusCode = 401, Message = ''Invalid API key provided''\<rparr>)))
   \<and> fst (Search unauthorized_platform test_client Background ''test''
          (Some (SearchOptions_zero\<lparr>so_SearchDepth := ''advanced'', so_MaxResults := 5,
                   so_IncludeRawContent := AnyString ''text'', so_MaxTokens := 1000\<rparr>)) []) =
     Inl (Wrapped ''search failed: Invalid API key provided''
           (APIErr \<lparr>StatusCode = 401, Message = ''Invalid API key provided''\<rparr>))"
proof -
  obtain b where m: "Marshal (PSearch (SearchRequest_of ''test''
      (SearchOptions_zero\<lparr>so_SearchDepth := ''advanced'', so_MaxResults := 5,
         so_IncludeRawContent := AnyString ''text'', so_MaxTokens := 1000\<rparr>))) = Inr b"
    by (simp add: marshal_SearchRequest_def SearchRequest_of_def SearchOptions_zero_def
          omitempty_any_def)
  have s: "fst (Search unauthorized_platform test_client Background ''test''
          (Some (SearchOptions_zero\<lparr>so_SearchDepth := ''advanced'', so_MaxResults := 5,
                   so_IncludeRawContent := AnyString ''text'', so_MaxTokens := 1000\<rparr>)) []) =
     Inl (Wrapped ''search failed: Invalid API key provided''
           (APIErr \<lparr>StatusCode = 401, Message = ''Invalid API key provided''\<rparr>))"
    by (simp add: Search_result unauthorized_doRequest [OF m] Errorf_w_def)
  show ?thesis
    using s unauthorized_context by (simp add: Errorf_w_def)
qed

text \<open>
  Claim C8, amended. SearchNews with query q and d days is Search with q and the options
  Topic "news", SearchDepth "advanced", Days d, MaxResults 15, IncludeAnswer true, whose
  payload has these values and timeout 60. SearchSimple, SearchWithAnswer, ExtractSimple,
  ExtractWithImages, CrawlDocumentation and MapSite are each the core call with the fixed
  options of helpers.go, result and network effect alike. GetSearchContext makes the same
  network call as Search with SearchDepth "advanced", MaxResults 5, IncludeRawContent
  "text" and the given MaxTokens and fails exactly when that call fails; it returns that
  error under a second "search failed: " prefix, or the results formatted as one string.
\<close>

theorem presets_delegate:
  "SearchNews p c ctx q days sent =
     Search p c ctx q
       (Some \<lparr>so_SearchDepth = ''advanced'', so_Topic = ''news'', so_TimeRange = [],
              so_Days = days, so_MaxResults = 15, so_IncludeDomains = [],
              so_ExcludeDomains = [], so_IncludeAnswer = AnyBool True,
              so_IncludeRawContent = AnyNil, so_IncludeImages = None,
              so_IncludeImageDescriptions = None, so_MaxTokens = 0, so_ChunksPerSource = 0,
              so_Country = [], so_Timeout = 0\<rparr>) sent
   \<and> SearchRequest_of q
       \<lparr>so_SearchDepth = ''advanced'', so_Topic = ''news'', so_TimeRange = [],
        so_Days = days, so_MaxResults = 15, so_IncludeDomains = [],
        so_ExcludeDomains = [], so_IncludeAnswer = AnyBool True,
        so_IncludeRawContent = AnyNil, so_IncludeImages = None,
        so_IncludeImageDescriptions = None, so_MaxTokens = 0, so_ChunksPerSource = 0,
        so_Country = [], so_Timeout = 0\<rparr> =
       \<lparr>sq_Query = q, sq_SearchDepth = ''advanced'', sq_Topic = ''news'', sq_TimeRange = [],
        sq_Days = days, sq_MaxResults = 15, sq_IncludeDomains = [], sq_ExcludeDomains = [],
        sq_IncludeAnswer = AnyBool True, sq_IncludeRawContent = AnyNil,
        sq_IncludeImages = None, sq_IncludeImageDescriptions = None, sq_MaxTokens = 0,
        sq_ChunksPerSource = 0, sq_Country = [], sq_Timeout = 60\<rparr>
   \<and> SearchSimple p c ctx q sent = Search p c ctx q None sent
   \<and> SearchWithAnswer p c ctx q sent =
     Search p c ctx q
       (Some \<lparr>so_SearchDepth = [], so_Topic = [], so_TimeRange = [],
              so_Days = 0, so_MaxResults = 10, so_IncludeDomains = [],
              so_ExcludeDomains = [], so_IncludeAnswer = AnyBool True,
              so_IncludeRawContent = AnyNil, so_IncludeImages = None,
              so_IncludeImageDescriptions = None, so_MaxTokens = 0, so_ChunksPerSource = 0,
              so_Country = [], so_Timeout = 0\<rparr>) sent
   \<and> ExtractSimple p c ctx url sent = Extract p c ctx [url] None sent
   \<and> ExtractWithImages p c ctx urls sent =
     Extract p c ctx urls
       (Some \<lparr>eo_IncludeImages = Some True, eo_ExtractDepth = ''advanced'',
              eo_Format = ''markdown'', eo_Timeout = 0\<rparr>) sent
   \<and> CrawlDocumentation p c ctx url maxPages sent =
     Crawl p c ctx url
       (Some \<lparr>co_MaxDepth = 3, co_MaxBreadth = 0, co_Limit = maxPages, co_Instructions = [],
              co_ExtractDepth = [],
              co_SelectPaths = [''/docs/*'', ''/api/*'', ''/guide/*'', ''/tutorial/*''],
              co_SelectDomains = [], co_ExcludePaths = [], co_ExcludeDomains = [],
              co_AllowExternal = Some False, co_IncludeImages = None,
              co_Categories = [''Documentation'', ''Developer''],
              co_Format = ''markdown'', co_Timeout = 0\<rparr>) sent
   \<and> MapSite p c ctx url sent =
     Map p c ctx url
       (Some \<lparr>mo_MaxDepth = 2, mo_MaxBreadth = 0, mo_Limit = 100, mo_Instructions = [],
              mo_SelectPaths = [], mo_SelectDomains = [], mo_ExcludePaths = [],
              mo_ExcludeDomains = [], mo_AllowExternal = None, mo_Categories = [],
              mo_Timeout = 0\<rparr>) sent
   \<and> snd (GetSearchContext p c ctx q maxTokens sent) =
     snd (Search p c ctx q
       (Some \<lparr>so_SearchDepth = ''advanced'', so_Topic = [], so_TimeRange = [],
              so_Days = 0, so_MaxResults = 5, so_IncludeDomains = [],
              so_ExcludeDomains = [], so_IncludeAnswer = AnyNil,
              so_IncludeRawContent = AnyString ''text'', so_IncludeImages = None,
              so_IncludeImageDescriptions = None, so_MaxTokens = maxTokens,
              so_ChunksPerSource = 0, so_Country = [], so_Timeout = 0\<rparr>) sent)
   \<and> fst (GetSearchContext p c ctx q maxTokens sent) =
     (case fst (Search p c ctx q
       (Some \<lparr>so_SearchDepth = ''advanced'', so_Topic = [], so_TimeRange = [],
              so_Days = 0, so_MaxResults = 5, so_IncludeDomains = [],
              so_ExcludeDomains = [], so_IncludeAnswer = AnyNil,
              so_IncludeRawContent = AnyString ''text'', so_IncludeImages = None,
              so_IncludeImageDescriptions = None, so_MaxTokens = maxTokens,
              so_ChunksPerSource = 0, so_Country = [], so_Timeout = 0\<rparr>) sent) of
        Inl err \<Rightarrow> Inl (Wrapped (''search failed: '' @ Error err) err)
      | Inr result \<Rightarrow>
          Inr (appendSources 0 (sp_Results result)
                 (''Search query: '' @ q @ [CHR 0x0A, CHR 0x0A])))
   \<and> isl (fst (GetSearchContext p c ctx q maxTokens sent)) =
     isl (fst (Search p c ctx q
       (Some \<lparr>so_SearchDepth = ''advanced'', so_Topic = [], so_TimeRange = [],
              so_Days = 0, so_MaxResults = 5, so_IncludeDomains = [],
              so_ExcludeDomains = [], so_IncludeAnswer = AnyNil,
              so_IncludeRawContent = AnyString ''text'', so_IncludeImages = None,
              so_IncludeImageDescriptions = None, so_MaxTokens = maxTokens,
              so_ChunksPerSource = 0, so_Country = [], so_Timeout = 0\<rparr>) sent))"
proof -
  have news: "SearchNews p c ctx q days sent =
     Search p c ctx q
       (Some \<lparr>so_SearchDepth = ''advanced'', so_Topic = ''news'', so_TimeRange = [],
              so_Days = days, so_MaxResults = 15, so_IncludeDomains = [],
              so_ExcludeDomains = [], so_IncludeAnswer = AnyBool True,
              so_IncludeRawContent = AnyNil, so_IncludeImages = None,
              so_IncludeImageDescriptions = None, so_MaxTokens = 0, so_ChunksPerSource = 0,
              so_Country = [], so_Timeout = 0\<rparr>) sent"
    by (simp add: SearchNews_def Let_def SearchOptions_zero_def TopicNews_def
          SearchDepthAdvanced_def)
  have payload: "SearchRequest_of q
       \<lparr>so_SearchDepth = ''advanced'', so_Topic = ''news'', so_TimeRange = [],
        so_Days = days, so_MaxResults = 15, so_IncludeDomains = [],
        so_ExcludeDomains = [], so_IncludeAnswer = AnyBool True,
        so_IncludeRawContent = AnyNil, so_IncludeImages = None,
        so_IncludeImageDescriptions = None, so_MaxTokens = 0, so_ChunksPerSource = 0,
        so_Country = [], so_Timeout = 0\<rparr> =
       \<lparr>sq_Query = q, sq_SearchDepth = ''advanced'', sq_Topic = ''news'', sq_TimeRange = [],
        sq_Days = days, sq_MaxResults = 15, sq_IncludeDomains = [], sq_ExcludeDomains = [],
        sq_IncludeAnswer = AnyBool True, sq_IncludeRawContent = AnyNil,
        sq_IncludeImages = None, sq_IncludeImageDescriptions = None, sq_MaxTokens = 0,
        sq_ChunksPerSource = 0, sq_Country = [], sq_Timeout = 60\<rparr>"
    by (simp add: SearchRequest_of_def defaultString_def defaultInt_def)
  have simple: "SearchSimple p c ctx q sent = Search p c ctx q None sent"
    by (simp add: SearchSimple_def)
  have answer: "SearchWithAnswer p c ctx q sent =
     Search p c ctx q
       (Some \<lparr>so_SearchDepth = [], so_Topic = [], so_TimeRange = [],
              so_Days = 0, so_MaxResults = 10, so_IncludeDomains = [],
              so_ExcludeDomains = [], so_IncludeAnswer = AnyBool True,
              so_IncludeRawContent = AnyNil, so_IncludeImages = None,
              so_IncludeImageDescriptions = None, so_MaxTokens = 0, so_ChunksPerSource = 0,
              so_Country = [], so_Timeout = 0\<rparr>) sent"
    by (simp add: SearchWithAnswer_def Let_def SearchOptions_zero_def)
  have esimple: "ExtractSimple p c ctx url sent = Extract p c ctx [url] None sent"
    by (simp add: ExtractSimple_def)
  have images: "ExtractWithImages p c ctx urls sent =
     Extract p c ctx urls
       (Some \<lparr>eo_IncludeImages = Some True, eo_ExtractDepth = ''advanced'',
              eo_Format = ''markdown'', eo_Timeout = 0\<rparr>) sent"
    by (simp add: ExtractWithImages_def Let_def ExtractOptions_zero_def BoolPtr_def
          FormatMarkdown_def SearchDepthAdvanced_def)
  have docs: "CrawlDocumentation p c ctx url maxPages sent =
     Crawl p c ctx url
       (Some \<lparr>co_MaxDepth = 3, co_MaxBreadth = 0, co_Limit = maxPages, co_Instructions = [],
              co_ExtractDepth = [],
              co_SelectPaths = [''/docs/*'', ''/api/*'', ''/guide/*'', ''/tutorial/*''],
              co_SelectDomains = [], co_ExcludePaths = [], co_ExcludeDomains = [],
              co_AllowExternal = Some False, co_IncludeImages = None,
              co_Categories = [''Documentation'', ''Developer''],
              co_Format = ''markdown'', co_Timeout = 0\<rparr>) sent"
    by (simp add: CrawlDocumentation_def Let_def CrawlOptions_zero_def BoolPtr_def
          FormatMarkdown_def CategoryDocumentation_def CategoryDeveloper_def)
  have site: "MapSite p c ctx url sent =
     Map p c ctx url
       (Some \<lparr>mo_MaxDepth = 2, mo_MaxBreadth = 0, mo_Limit = 100, mo_Instructions = [],
              mo_SelectPaths = [], mo_SelectDomains = [], mo_ExcludePaths = [],
              mo_ExcludeDomains = [], mo_AllowExternal = None, mo_Categories = [],
              mo_Timeout = 0\<rparr>) sent"
    by (simp add: MapSite_def Let_def MapOptions_zero_def)
  have go: "SearchOptions_zero\<lparr>so_SearchDepth := SearchDepthAdvanced, so_MaxResults := 5,
                   so_IncludeRawContent := AnyString FormatText, so_MaxTokens := maxTokens\<rparr> =
       \<lparr>so_SearchDepth = ''advanced'', so_Topic = [], so_TimeRange = [],
              so_Days = 0, so_MaxResults = 5, so_IncludeDomains = [],
              so_ExcludeDomains = [], so_IncludeAnswer = AnyNil,
              so_IncludeRawContent = AnyString ''text'', so_IncludeImages = None,
              so_IncludeImageDescriptions = None, so_MaxTokens = maxTokens,
              so_ChunksPerSource = 0, so_Country = [], so_Timeout = 0\<rparr>"
    by (simp add: SearchOptions_zero_def SearchDepthAdvanced_def FormatText_def)
  have g1: "snd (GetSearchContext p c ctx q maxTokens sent) =
     snd (Search p c ctx q
       (Some \<lparr>so_SearchDepth = ''advanced'', so_Topic = [], so_TimeRange = [],
              so_Days = 0, so_MaxResults = 5, so_IncludeDomains = [],
              so_ExcludeDomains = [], so_IncludeAnswer = AnyNil,
              so_IncludeRawContent = AnyString ''text'', so_IncludeImages = None,
              so_IncludeImageDescriptions = None, so_MaxTokens = maxTokens,
              so_ChunksPerSource = 0, so_Country = [], so_Timeout = 0\<rparr>) sent)"
    by (simp add: GetSearchContext_def Let_def snd_wrap go)
  have g2: "fst (GetSearchContext p c ctx q maxTokens sent) =
     (case fst (Search p c ctx q
       (Some \<lparr>so_SearchDepth = ''advanced'', so_Topic = [], so_TimeRange = [],
              so_Days = 0, so_MaxResults = 5, so_IncludeDomains = [],
              so_ExcludeDomains = [], so_IncludeAnswer = AnyNil,
              so_IncludeRawContent = AnyString ''text'', so_IncludeImages = None,
              so_IncludeImageDescriptions = None, so_MaxTokens = maxTokens,
              so_ChunksPerSource = 0, so_Country = [], so_Timeout = 0\<rparr>) sent) of
        Inl err \<Rightarrow> Inl (Wrapped (''search failed: '' @ Error err) err)
      | Inr result \<Rightarrow>
          Inr (appendSources 0 (sp_Results result)
                 (''Search query: '' @ q @ [CHR 0x0A, CHR 0x0A])))"
    by (simp add: GetSearchContext_def Let_def fst_wrap go Errorf_w_def split: sum.splits)
  have g3: "isl (fst (GetSearchContext p c ctx q maxTokens sent)) =
     isl (fst (Search p c ctx q
       (Some \<lparr>so_SearchDepth = ''advanced'', so_Topic = [], so_TimeRange = [],
              so_Days = 0, so_MaxResults = 5, so_IncludeDomains = [],
              so_ExcludeDomains = [], so_IncludeAnswer = AnyNil,
              so_IncludeRawContent = AnyString ''text'', so_IncludeImages = None,
              so_IncludeImageDescriptions = None, so_MaxTokens = maxTokens,
              so_ChunksPerSource = 0, so_Country = [], so_Timeout = 0\<rparr>) sent))"
    unfolding g2 by (simp split: sum.splits)
  show ?thesis
    using news payload simple answer esimple images docs site g1 g2 g3 by blast
qed

end
